theory Spec2Isabelle
  imports Complex_Main "HOL-Library.Sublist"
begin

section \<open>Python values, exceptions and printed lines\<close>

text \<open>
  The exceptions the modelled code can meet. All of them are subclasses of Python's
  \<open>Exception\<close>, so an \<open>except Exception\<close> handler catches each one.
\<close>

datatype exn =
    KeyError string
  | NameError string
  | AttributeError string
  | TypeError string
  | RuntimeError string
  | OSError string
  | ValueError string
  | AssertionError string
  | ZeroDivisionError string

text \<open>A Python float: a number or NaN. Every comparison with NaN is false.\<close>

datatype pyfloat = NaN | Fl real

fun flt :: "pyfloat \<Rightarrow> pyfloat \<Rightarrow> bool" where
  "flt (Fl a) (Fl b) = (a < b)"
| "flt _ _ = False"

type_synonym path = string

text \<open>A metrics dictionary: metric name to value, in insertion order.\<close>

type_synonym metrics = "(string \<times> pyfloat) list"

text \<open>
  What \<open>torch.load\<close> can give back and \<open>torch.save\<close> can store: a number, a metrics
  dictionary, a dictionary of such values, or a state dict of a model, an optimizer or a
  scheduler (type \<open>'sd\<close>, left open).
\<close>

datatype 'sd pyval =
    PInt int
  | PFloat pyfloat
  | PMetrics metrics
  | PDict "(string \<times> 'sd pyval) list"
  | PState 'sd

text \<open>
  \<open>v[k]\<close>: a missing key raises KeyError, a number is not subscriptable. A state dict
  holds parameter names only, so none of the metadata keys is found in it.
\<close>

fun getitem :: "'sd pyval \<Rightarrow> string \<Rightarrow> exn + 'sd pyval" where
  "getitem (PDict d) k = (case map_of d k of None \<Rightarrow> Inl (KeyError k) | Some v \<Rightarrow> Inr v)"
| "getitem (PMetrics m) k =
     (case map_of m k of None \<Rightarrow> Inl (KeyError k) | Some f \<Rightarrow> Inr (PFloat f))"
| "getitem (PState sd) k = Inl (KeyError k)"
| "getitem (PInt n) k = Inl (TypeError ''int object is not subscriptable'')"
| "getitem (PFloat f) k = Inl (TypeError ''float object is not subscriptable'')"

text \<open>\<open>v + 1\<close>: defined on numbers, TypeError on dictionaries.\<close>

fun py_plus_one :: "'sd pyval \<Rightarrow> exn + 'sd pyval" where
  "py_plus_one (PInt n) = Inr (PInt (n + 1))"
| "py_plus_one (PFloat (Fl r)) = Inr (PFloat (Fl (r + 1)))"
| "py_plus_one (PFloat NaN) = Inr (PFloat NaN)"
| "py_plus_one _ = Inl (TypeError ''unsupported operand type(s) for +'')"

text \<open>
  What \<open>accelerator.print\<close> receives in \<open>utils.py\<close>: an exception, a fixed text, or the
  success line of \<open>resume_train_state\<close> with the two values it formats.
\<close>

datatype 'sd line =
    Line_exn exn
  | Line_text string
  | Line_resumed "'sd pyval" "'sd pyval"

text \<open>
  An optimizer or scheduler argument of \<open>resume_train_state\<close>: one object (given by its
  state), a Python list of objects, or a dictionary of objects.
\<close>

datatype 'sd pyarg = Obj 'sd | PyList "'sd list" | PyDict "(string \<times> 'sd) list"

text \<open>
  The world outside \<open>utils.py\<close>: the working directory, the two ways of reading a
  serialized file, and the \<open>load_state_dict\<close> methods of the three classes of objects.
  A \<open>load_state_dict\<close> mutates its object and may raise after doing so: it returns the
  object's state afterwards together with the exception, if any.
\<close>

record 'sd env =
  cwd :: string
  torch_load :: "path \<Rightarrow> exn + 'sd pyval"
  hub_load :: "path \<Rightarrow> exn + 'sd pyval"
  model_load_state_dict :: "'sd \<Rightarrow> 'sd pyval \<Rightarrow> 'sd \<times> exn option"
  optimizer_load_state_dict :: "'sd \<Rightarrow> 'sd pyval \<Rightarrow> 'sd \<times> exn option"
  scheduler_load_state_dict :: "'sd \<Rightarrow> 'sd pyval \<Rightarrow> 'sd \<times> exn option"

section \<open>utils.py\<close>

subsection \<open>load_model_dict, load_pretrain_model\<close>

definition load_model_dict :: "'sd env \<Rightarrow> path \<Rightarrow> exn + 'sd pyval" where
  "load_model_dict E download_path =
     (if take 4 download_path = ''http'' then hub_load E download_path
      else torch_load E download_path)"

definition load_pretrain_model :: "'sd env \<Rightarrow> path \<Rightarrow> 'sd \<Rightarrow> 'sd \<times> 'sd line list" where
  "load_pretrain_model E pretrain_path model =
     (case load_model_dict E pretrain_path of
        Inl e \<Rightarrow> (model, [Line_exn e, Line_text ''Failed to load the training model!''])
      | Inr state_dict \<Rightarrow>
          (case model_load_state_dict E model state_dict of
             (model', Some e) \<Rightarrow>
               (model', [Line_exn e, Line_text ''Failed to load the training model!''])
           | (model', None) \<Rightarrow>
               (model', [Line_text ''Successfully loaded the training model!''])))"

subsection \<open>load_param\<close>

function str_nat :: "nat \<Rightarrow> string" where
  "str_nat n =
     (if n < 10 then [''0123456789'' ! n]
      else str_nat (n div 10) @ [''0123456789'' ! (n mod 10)])"
  by pat_completeness auto
termination
  by (relation "measure id") auto

text \<open>
  The loop of \<open>load_param\<close> over the entries of a dictionary. When a load raises, the
  entries loaded so far stay loaded: the dictionary as the exception leaves it is
  returned with the exception.
\<close>

fun load_param_loop ::
  "'sd env \<Rightarrow> ('sd \<Rightarrow> 'sd pyval \<Rightarrow> 'sd \<times> exn option) \<Rightarrow> path \<Rightarrow> string \<Rightarrow> nat \<Rightarrow>
   (string \<times> 'sd) list \<Rightarrow> exn option \<times> (string \<times> 'sd) list" where
  "load_param_loop E ld base_path type num [] = (None, [])"
| "load_param_loop E ld base_path type num ((key, obj) # rest) =
     (let add = (if num = 0 then [] else ''_'' @ str_nat num) in
      case torch_load E (base_path @ ''/'' @ type @ add @ ''.bin'') of
        Inl e \<Rightarrow> (Some e, (key, obj) # rest)
      | Inr v \<Rightarrow>
          (case ld obj v of
             (obj', Some e) \<Rightarrow> (Some e, (key, obj') # rest)
           | (obj', None) \<Rightarrow>
               (case load_param_loop E ld base_path type (num + 1) rest of
                  (r, rest') \<Rightarrow> (r, (key, obj') # rest'))))"

text \<open>
  \<open>load_param\<close> calls \<open>param_dict.keys()\<close> first: anything but a dictionary has no such
  method.
\<close>

definition load_param ::
  "'sd env \<Rightarrow> ('sd \<Rightarrow> 'sd pyval \<Rightarrow> 'sd \<times> exn option) \<Rightarrow> path \<Rightarrow> 'sd pyarg \<Rightarrow> string \<Rightarrow>
   exn option \<times> 'sd pyarg" where
  "load_param E ld base_path param_dict type =
     (case param_dict of
        PyDict d \<Rightarrow>
          (case load_param_loop E ld base_path type 0 d of (r, d') \<Rightarrow> (r, PyDict d'))
      | _ \<Rightarrow> (Some (AttributeError ''keys''), param_dict))"

subsection \<open>resume_train_state\<close>

text \<open>
  Sequencing of steps that may raise: the first exception ends the sequence.
\<close>

definition bind_exn :: "'e + 'a \<Rightarrow> ('a \<Rightarrow> 'e + 'b) \<Rightarrow> 'e + 'b" where
  "bind_exn m f = (case m of Inl e \<Rightarrow> Inl e | Inr v \<Rightarrow> f v)"

text \<open>
  Lines 31 to 36: read \<open>epoch.pth.tar\<close> and take the five entries, in the order of the
  source: best score, best metrics, starting epoch, train step, val step.
\<close>

definition read_epoch_checkpoint ::
  "'sd env \<Rightarrow> path \<Rightarrow>
   exn + ('sd pyval \<times> 'sd pyval \<times> 'sd pyval \<times> 'sd pyval \<times> 'sd pyval)" where
  "read_epoch_checkpoint E base_path =
     bind_exn (torch_load E (base_path @ ''/epoch.pth.tar'')) (\<lambda>epoch_checkpoint.
     bind_exn (getitem epoch_checkpoint ''best_score'') (\<lambda>best_score.
     bind_exn (getitem epoch_checkpoint ''best_metrics'') (\<lambda>best_metrics.
     bind_exn (getitem epoch_checkpoint ''epoch'') (\<lambda>ep.
     bind_exn (py_plus_one ep) (\<lambda>starting_epoch.
     bind_exn (getitem epoch_checkpoint ''train_step'') (\<lambda>train_step.
     bind_exn (getitem epoch_checkpoint ''val_step'') (\<lambda>val_step.
     Inr (best_score, best_metrics, starting_epoch, train_step, val_step))))))))"

text \<open>
  \<open>x.load_state_dict(torch.load(path))\<close>: the attribute is looked up first (only an
  object has it), then the file is read, then the method runs.
\<close>

definition call_load_state_dict ::
  "'sd env \<Rightarrow> ('sd \<Rightarrow> 'sd pyval \<Rightarrow> 'sd \<times> exn option) \<Rightarrow> 'sd pyarg \<Rightarrow> path \<Rightarrow>
   exn option \<times> 'sd pyarg" where
  "call_load_state_dict E ld x file =
     (case x of
        Obj obj \<Rightarrow>
          (case torch_load E file of
             Inl e \<Rightarrow> (Some e, x)
           | Inr v \<Rightarrow> (case ld obj v of (obj', r) \<Rightarrow> (r, Obj obj')))
      | _ \<Rightarrow> (Some (AttributeError ''load_state_dict''), x))"

definition is_list :: "'sd pyarg \<Rightarrow> bool" where
  "is_list x = (case x of PyList os \<Rightarrow> True | _ \<Rightarrow> False)"

text \<open>
  Lines 38 to 43: the optimizers, then the schedulers, unless the optimizers raised.
  The result is the exception, if any, and both arguments as the loads left them.
\<close>

definition load_optimizers_schedulers ::
  "'sd env \<Rightarrow> path \<Rightarrow> 'sd pyarg \<Rightarrow> 'sd pyarg \<Rightarrow> exn option \<times> 'sd pyarg \<times> 'sd pyarg" where
  "load_optimizers_schedulers E base_path optimizers schedulers =
     (if is_list optimizers then
        (case load_param E (optimizer_load_state_dict E) base_path optimizers ''optimizer'' of
           (r, optimizers') \<Rightarrow>
             (case r of
                Some e \<Rightarrow> (Some e, optimizers', schedulers)
              | None \<Rightarrow>
                  (case load_param E (scheduler_load_state_dict E) base_path schedulers
                          ''scheduler'' of
                     (r', schedulers') \<Rightarrow> (r', optimizers', schedulers'))))
      else
        (case call_load_state_dict E (optimizer_load_state_dict E) optimizers
                (base_path @ ''/optimizer.bin'') of
           (r, optimizers') \<Rightarrow>
             (case r of
                Some e \<Rightarrow> (Some e, optimizers', schedulers)
              | None \<Rightarrow>
                  (case call_load_state_dict E (scheduler_load_state_dict E) schedulers
                          (base_path @ ''/scheduler.bin'') of
                     (r', schedulers') \<Rightarrow> (r', optimizers', schedulers')))))"

text \<open>
  The body of the \<open>try\<close>. \<open>Inl\<close> is a raise: it carries the exception, the model,
  optimizers and schedulers as they are at that moment, and the lines printed so far.
\<close>

type_synonym 'sd resumed =
  "'sd \<times> 'sd pyarg \<times> 'sd pyarg \<times> 'sd pyval \<times> 'sd pyval \<times> 'sd pyval \<times> 'sd pyval \<times> 'sd pyval"

definition resume_try ::
  "'sd env \<Rightarrow> 'sd \<Rightarrow> string \<Rightarrow> 'sd pyarg \<Rightarrow> 'sd pyarg \<Rightarrow>
   (exn \<times> 'sd \<times> 'sd pyarg \<times> 'sd pyarg \<times> 'sd line list) + ('sd resumed \<times> 'sd line list)" where
  "resume_try E model checkpoint optimizers schedulers =
     (let base_path = cwd E @ ''/model_store/'' @ checkpoint @ ''/checkpoint'' in
      case read_epoch_checkpoint E base_path of
        Inl e \<Rightarrow> Inl (e, model, optimizers, schedulers, [])
      | Inr meta \<Rightarrow>
          (case meta of (best_score, best_metrics, starting_epoch, train_step, val_step) \<Rightarrow>
           case load_pretrain_model E (base_path @ ''/pytorch_model.bin'') model of
             (model', out) \<Rightarrow>
           case load_optimizers_schedulers E base_path optimizers schedulers of
             (r, optimizers', schedulers') \<Rightarrow>
           case r of
             Some e \<Rightarrow> Inl (e, model', optimizers', schedulers', out)
           | None \<Rightarrow>
               Inr ((model', optimizers', schedulers', starting_epoch, train_step, val_step,
                     best_score, best_metrics),
                    out @ [Line_resumed starting_epoch best_score])))"

text \<open>
  The \<open>except Exception\<close> handler prints the exception and the failure text and returns
  the three objects with epoch 0, both step counters 0, a zero best score and an empty
  metrics dictionary.
\<close>

definition resume_train_state ::
  "'sd env \<Rightarrow> 'sd \<Rightarrow> string \<Rightarrow> 'sd pyarg \<Rightarrow> 'sd pyarg \<Rightarrow> 'sd resumed \<times> 'sd line list" where
  "resume_train_state E model checkpoint optimizers schedulers =
     (case resume_try E model checkpoint optimizers schedulers of
        Inr r \<Rightarrow> r
      | Inl x \<Rightarrow>
          (case x of (e, model', optimizers', schedulers', out) \<Rightarrow>
             ((model', optimizers', schedulers', PInt 0, PInt 0, PInt 0, PFloat (Fl 0),
               PMetrics []),
              out @ [Line_exn e, Line_text ''Failed to load training state!''])))"

subsection \<open>add_tokens_tokenizer\<close>

text \<open>
  A tokenizer is an object of the tokenizer library: its \<open>vocab\<close> attribute answers the
  membership test, and its \<open>add_tokens\<close> method takes a list of words, changes the
  tokenizer and returns how many it added. Both belong to the library and are taken as
  given.
\<close>

record 'tk tokenizer_methods =
  in_vocab :: "'tk \<Rightarrow> string \<Rightarrow> bool"
  add_tokens :: "'tk \<Rightarrow> string list \<Rightarrow> nat \<times> 'tk"

text \<open>What \<open>print\<close> writes in \<open>add_tokens_tokenizer\<close>.\<close>

datatype stdout = Not_in_vocabulary string | Now_added nat

text \<open>The loop over \<open>all_list\<close>: the list \<open>add\<close> and the lines printed so far.\<close>

fun collect_missing ::
  "'tk tokenizer_methods \<Rightarrow> 'tk \<Rightarrow> string list \<Rightarrow> string list \<Rightarrow> stdout list \<Rightarrow>
   string list \<times> stdout list" where
  "collect_missing M tokenizer [] add out = (add, out)"
| "collect_missing M tokenizer (word # rest) add out =
     (if in_vocab M tokenizer word then collect_missing M tokenizer rest add out
      else collect_missing M tokenizer rest (add @ [word]) (out @ [Not_in_vocabulary word]))"

definition add_tokens_tokenizer ::
  "'tk tokenizer_methods \<Rightarrow> 'tk \<Rightarrow> string list \<Rightarrow> 'tk \<times> stdout list" where
  "add_tokens_tokenizer M tokenizer all_list =
     (case collect_missing M tokenizer all_list [] [] of
        (add, out) \<Rightarrow>
          (case add_tokens M tokenizer add of
             (num_added_toks, tokenizer') \<Rightarrow> (tokenizer', out @ [Now_added num_added_toks])))"

section \<open>Library stand-ins and a small file system for the concrete checks\<close>

text \<open>
  A tokenizer whose vocabulary is a list of words; \<open>add_tokens\<close> appends the words it does
  not have yet and returns how many it appended, as the library documents it.
\<close>

definition list_tokenizer :: "string list tokenizer_methods" where
  "list_tokenizer =
     \<lparr> in_vocab = (\<lambda>tk w. w \<in> set tk),
       add_tokens = (\<lambda>tk ws.
         (let new = remdups (filter (\<lambda>w. w \<notin> set tk) ws) in (length new, tk @ new))) \<rparr>"

text \<open>
  \<open>torch.nn.Module.load_state_dict\<close> with \<open>strict=True\<close>, as the library does it: every
  entry of the object whose key the loaded dictionary has is overwritten first, and only
  then a RuntimeError is raised when a key is missing or unexpected. Anything that is not
  a state dict is refused with a TypeError.
\<close>

definition strict_load_state_dict ::
  "(string \<times> int) list \<Rightarrow> (string \<times> int) list pyval \<Rightarrow> (string \<times> int) list \<times> exn option" where
  "strict_load_state_dict own v =
     (case v of
        PState state_dict \<Rightarrow>
          (let loaded = map (\<lambda>(k, x). (k, case map_of state_dict k of Some y \<Rightarrow> y | None \<Rightarrow> x)) own;
               missing_keys = filter (\<lambda>k. map_of state_dict k = None) (map fst own);
               unexpected_keys = filter (\<lambda>k. map_of own k = None) (map fst state_dict)
           in (loaded,
               if missing_keys = [] \<and> unexpected_keys = [] then None
               else Some (RuntimeError ''Error(s) in loading state_dict'')))
      | _ \<Rightarrow> (own, Some (TypeError ''Expected state_dict to be dict-like'')))"

text \<open>
  A file system with one checkpoint directory \<open>/w/model_store/run/checkpoint\<close> that holds
  the metadata file, the optimizer and the scheduler state but no model weights, and one
  file of pretrained weights.
\<close>

definition example_files :: "path \<Rightarrow> exn + (string \<times> int) list pyval" where
  "example_files file =
     (if file = ''/w/model_store/run/checkpoint/epoch.pth.tar'' then
        Inr (PDict [(''epoch'', PInt 3), (''best_score'', PFloat (Fl (1/2))),
                    (''best_metrics'', PMetrics [(''Val/IVT'', Fl (1/2))]),
                    (''train_step'', PInt 4), (''val_step'', PInt 4)])
      else if file = ''/w/model_store/run/checkpoint/optimizer.bin'' then
        Inr (PState [(''lr'', 5)])
      else if file = ''/w/model_store/run/checkpoint/scheduler.bin'' then
        Inr (PState [(''last_epoch'', 3)])
      else if file = ''/w/pretrained.bin'' then
        Inr (PState [(''fc.weight'', 7), (''head.bias'', 1)])
      else Inl (OSError ''No such file or directory''))"

definition example_env :: "(string \<times> int) list env" where
  "example_env =
     \<lparr> cwd = ''/w'', torch_load = example_files,
       hub_load = (\<lambda>url. Inl (OSError ''no network'')),
       model_load_state_dict = strict_load_state_dict,
       optimizer_load_state_dict = strict_load_state_dict,
       scheduler_load_state_dict = strict_load_state_dict \<rparr>"

section \<open>Pamain.py\<close>

text \<open>
  The model, the optimizer and the scheduler of a run. The model is given by its state;
  the optimizer and the scheduler are what \<open>resume_train_state\<close> takes and returns.
\<close>

record 'sd objs =
  model_of :: 'sd
  optimizer_of :: "'sd pyarg"
  scheduler_of :: "'sd pyarg"

text \<open>A batch of the loaders: image, text, and the four label tensors.\<close>

type_synonym 't batch = "'t \<times> 't \<times> ('t \<times> 't \<times> 't \<times> 't)"

text \<open>
  What the run does to the outside, in order: lines printed, values logged, passes of
  the model, steps of the optimizer and the scheduler, files written.
\<close>

datatype ('sd, 't) event =
    Print "'sd line"
  | Model_train
  | Forward 't 't
  | Backward 't
  | Optimizer_step
  | Optimizer_zero_grad
  | Scheduler_step int
  | Log metrics int
  | Print_train int int nat nat pyfloat pyfloat pyfloat pyfloat pyfloat
  | Print_val int int pyfloat pyfloat pyfloat pyfloat pyfloat pyfloat
  | Print_best pyfloat
  | Print_text string
  | Print_score pyfloat
  | Print_metrics metrics
  | Save_state path
  | Torch_save path "'sd pyval"

text \<open>
  The operations of the tensor library, of the accelerator and of the model, optimizer
  and scheduler classes, and \<open>PA_val\<close> of \<open>src/eval.py\<close>: all of them code outside the
  files modelled here, taken as given. Tensors have type \<open>'t\<close>. An operation that mutates
  the model, the optimizer or the scheduler returns them as it leaves them.
\<close>

record ('sd, 't) torch =
  model_call :: "'sd objs \<Rightarrow> 't \<Rightarrow> 't \<Rightarrow> ('t \<times> 't \<times> 't \<times> 't) \<times> 'sd objs"
  model_train :: "'sd objs \<Rightarrow> 'sd objs"
  state_dict_of :: "'sd objs \<Rightarrow> 'sd"
  squeeze :: "'t \<Rightarrow> 't"
  to_float :: "'t \<Rightarrow> 't"
  CrossEntropyLoss :: "'t \<Rightarrow> 't \<Rightarrow> 't"
  BCEWithLogitsLoss :: "'t \<Rightarrow> 't \<Rightarrow> 't"
  tensor_add :: "'t \<Rightarrow> 't \<Rightarrow> 't"
  item :: "'t \<Rightarrow> pyfloat"
  backward :: "'t \<Rightarrow> 'sd objs \<Rightarrow> 'sd objs"
  optimizer_step :: "'sd objs \<Rightarrow> 'sd objs"
  optimizer_zero_grad :: "'sd objs \<Rightarrow> 'sd objs"
  scheduler_step :: "int \<Rightarrow> 'sd objs \<Rightarrow> 'sd objs"
  prepare :: "'sd objs \<Rightarrow> 'sd objs"
  PA_val :: "'sd objs \<Rightarrow> 't batch list \<Rightarrow> int \<Rightarrow> bool \<Rightarrow> (metrics \<times> int) \<times> 'sd objs"

text \<open>
  The entries of \<open>config.yml\<close> the run reads. \<open>checkpoint_name\<close> is
  \<open>config.finetune.checkpoint + config.trainer.dataset\<close>.
\<close>

record config =
  num_epochs :: int
  val_training :: bool
  is_train :: bool
  resume_train :: bool
  resume_test :: bool
  checkpoint_name :: string

subsection \<open>train_one_epoch\<close>

text \<open>
  The body of the batch loop, lines 37 to 64. The model's four outputs are bound, in
  this order, to \<open>tool\<close>, \<open>target\<close>, \<open>verb\<close> and \<open>triplet\<close>.
\<close>

definition train_batch ::
  "('sd, 't) torch \<Rightarrow> config \<Rightarrow> int \<Rightarrow> nat \<Rightarrow> nat \<Rightarrow> 't batch \<Rightarrow> 'sd objs \<Rightarrow> int \<Rightarrow>
   'sd objs \<times> int \<times> ('sd, 't) event list" where
  "train_batch T cfg epoch batch n b W step =
     (case b of (img, txt, (y1, y2, y3, y4)) \<Rightarrow>
      case model_call T W img (squeeze T txt) of ((tool, target, verb, triplet), W1) \<Rightarrow>
      let tool_mask_loss = CrossEntropyLoss T tool (to_float T y1);
          target_mask_loss = CrossEntropyLoss T verb (to_float T y2);
          verb_mask_loss = CrossEntropyLoss T target (to_float T y3);
          loss_ivt = BCEWithLogitsLoss T triplet (to_float T y4);
          loss = tensor_add T
                   (tensor_add T (tensor_add T tool_mask_loss target_mask_loss) verb_mask_loss)
                   loss_ivt;
          W2 = backward T loss W1;
          W3 = optimizer_step T W2;
          W4 = optimizer_zero_grad T W3
      in (W4, step + 1,
          [Forward img (squeeze T txt), Backward loss, Optimizer_step, Optimizer_zero_grad,
           Log [(''Train/Total Loss'', item T loss),
                (''Train/tool_mask_loss'', item T tool_mask_loss),
                (''Train/target_mask_loss'', item T target_mask_loss),
                (''Train/verb_mask_loss'', item T verb_mask_loss),
                (''Train/loss_ivt'', item T loss_ivt)] step,
           Print_train (epoch + 1) (num_epochs cfg) (batch + 1) n (item T loss)
             (item T loss_ivt) (item T tool_mask_loss) (item T verb_mask_loss)
             (item T target_mask_loss)]))"

text \<open>
  The batch loop, line 35: its body ends with \<open>break\<close>, so the loop is left after the
  first batch and the rest of the loader is never drawn. An empty loader gives no
  iteration at all.
\<close>

fun train_batches ::
  "('sd, 't) torch \<Rightarrow> config \<Rightarrow> int \<Rightarrow> nat \<Rightarrow> nat \<Rightarrow> 't batch list \<Rightarrow> 'sd objs \<Rightarrow> int \<Rightarrow>
   'sd objs \<times> int \<times> ('sd, 't) event list" where
  "train_batches T cfg epoch batch n [] W step = (W, step, [])"
| "train_batches T cfg epoch batch n (b # rest) W step =
     train_batch T cfg epoch batch n b W step"

definition train_one_epoch ::
  "('sd, 't) torch \<Rightarrow> config \<Rightarrow> 't batch list \<Rightarrow> int \<Rightarrow> 'sd objs \<Rightarrow> int \<Rightarrow>
   'sd objs \<times> int \<times> ('sd, 't) event list" where
  "train_one_epoch T cfg train_loader epoch W step =
     (case train_batches T cfg epoch 0 (length train_loader) train_loader (model_train T W)
             step of
        (W1, step', ev) \<Rightarrow>
          let W2 = scheduler_step T epoch W1 in
          if val_training cfg then
            (case PA_val T W2 train_loader (- 1) True of
               ((metrics, u), W3) \<Rightarrow>
                 (W3, step', [Model_train] @ ev @ [Scheduler_step epoch, Log metrics epoch]))
          else (W2, step', [Model_train] @ ev @ [Scheduler_step epoch]))"

subsection \<open>val_one_epoch\<close>

text \<open>\<open>metrics[k]\<close> on a metrics dictionary.\<close>

definition metric :: "metrics \<Rightarrow> string \<Rightarrow> exn + pyfloat" where
  "metric m k = (case map_of m k of None \<Rightarrow> Inl (KeyError k) | Some v \<Rightarrow> Inr v)"

definition val_one_epoch ::
  "('sd, 't) torch \<Rightarrow> config \<Rightarrow> 't batch list \<Rightarrow> int \<Rightarrow> 'sd objs \<Rightarrow> int \<Rightarrow>
   (exn \<times> 'sd objs) + ((pyfloat \<times> metrics \<times> int) \<times> 'sd objs \<times> ('sd, 't) event list)" where
  "val_one_epoch T cfg val_loader epoch W step =
     (case PA_val T W val_loader step False of
        ((metrics, step'), W1) \<Rightarrow>
          (case bind_exn (metric metrics ''Val/I'') (\<lambda>i_score.
                bind_exn (metric metrics ''Val/T'') (\<lambda>t_score.
                bind_exn (metric metrics ''Val/V'') (\<lambda>v_score.
                bind_exn (metric metrics ''Val/IVM'') (\<lambda>ivm_score.
                bind_exn (metric metrics ''Val/ITM'') (\<lambda>itm_score.
                bind_exn (metric metrics ''Val/IVT'') (\<lambda>ivt_score.
                Inr (i_score, t_score, v_score, ivm_score, itm_score, ivt_score))))))) of
             Inl e \<Rightarrow> Inl (e, W1)
           | Inr sc \<Rightarrow>
               (case sc of (i_score, t_score, v_score, ivm_score, itm_score, ivt_score) \<Rightarrow>
                  Inr ((ivt_score, metrics, step'), W1,
                       [Print_val (epoch + 1) (num_epochs cfg) ivt_score i_score v_score
                          t_score ivm_score itm_score,
                        Log metrics epoch]))))"

subsection \<open>The training loop of the main program\<close>

text \<open>The variables of the main program that the loop reads and writes, and the events.\<close>

record ('sd, 't) run_state =
  st_objs :: "'sd objs"
  st_best_score :: pyfloat
  st_best_metrics :: metrics
  st_train_step :: int
  st_val_step :: int
  st_trace :: "('sd, 't) event list"

text \<open>The dictionary both \<open>torch.save\<close> calls for \<open>epoch.pth.tar\<close> write (lines 161, 170).\<close>

definition epoch_record ::
  "int \<Rightarrow> pyfloat \<Rightarrow> metrics \<Rightarrow> int \<Rightarrow> int \<Rightarrow> 'sd pyval" where
  "epoch_record epoch bs bm ts vs =
     PDict [(''epoch'', PInt epoch), (''best_score'', PFloat bs), (''best_metrics'', PMetrics bm),
            (''train_step'', PInt ts), (''val_step'', PInt vs)]"

definition store_dir :: "'sd env \<Rightarrow> config \<Rightarrow> path" where
  "store_dir E cfg = cwd E @ ''/model_store/'' @ checkpoint_name cfg"

text \<open>
  One pass of the loop body, lines 150 to 172. \<open>best_score\<close> is a one-element tensor at
  first and the validation score later; \<open>best_score.item()\<close> reads the number it holds.
  A KeyError of \<open>val_one_epoch\<close> leaves the loop with the state as it is then.
\<close>

definition epoch_body ::
  "'sd env \<Rightarrow> ('sd, 't) torch \<Rightarrow> config \<Rightarrow> 't batch list \<Rightarrow> 't batch list \<Rightarrow> int \<Rightarrow>
   ('sd, 't) run_state \<Rightarrow> (exn \<times> ('sd, 't) run_state) + ('sd, 't) run_state" where
  "epoch_body E T cfg train_loader val_loader epoch s =
     (case train_one_epoch T cfg train_loader epoch (st_objs s) (st_train_step s) of
        (W1, train_step', ev1) \<Rightarrow>
      case val_one_epoch T cfg val_loader epoch W1 (st_val_step s) of
        Inl x \<Rightarrow>
          (case x of (e, W2) \<Rightarrow>
             Inl (e, s\<lparr>st_objs := W2, st_train_step := train_step',
                       st_trace := st_trace s @ ev1\<rparr>))
      | Inr r \<Rightarrow>
          (case r of ((score, metrics, val_step'), W2, ev2) \<Rightarrow>
           let improved = flt (st_best_score s) score;
               best_score' = (if improved then score else st_best_score s);
               best_metrics' = (if improved then metrics else st_best_metrics s);
               meta = epoch_record epoch best_score' best_metrics' train_step' val_step';
               ev_best =
                 (if improved then
                    [Save_state (store_dir E cfg @ ''/best/new/''),
                     Torch_save (store_dir E cfg @ ''/best/new/model.pth'')
                       (PState (state_dict_of T W2)),
                     Torch_save (store_dir E cfg @ ''/best/epoch.pth.tar'') meta]
                  else []);
               ev_checkout =
                 [Print_best best_score',
                  Print_text ''Checkout....'',
                  Save_state (store_dir E cfg @ ''/checkpoint''),
                  Torch_save (store_dir E cfg @ ''/checkpoint/epoch.pth.tar'') meta,
                  Print_text ''Checkout Over!'']
           in Inr \<lparr>st_objs = W2, st_best_score = best_score', st_best_metrics = best_metrics',
                   st_train_step = train_step', st_val_step = val_step',
                   st_trace = st_trace s @ ev1 @ ev2 @ ev_best @ ev_checkout\<rparr>))"

text \<open>The \<open>for\<close> loop over the epochs: an exception ends it.\<close>

fun run_epochs ::
  "'sd env \<Rightarrow> ('sd, 't) torch \<Rightarrow> config \<Rightarrow> 't batch list \<Rightarrow> 't batch list \<Rightarrow> int list \<Rightarrow>
   ('sd, 't) run_state \<Rightarrow> exn option \<times> ('sd, 't) run_state" where
  "run_epochs E T cfg train_loader val_loader [] s = (None, s)"
| "run_epochs E T cfg train_loader val_loader (epoch # rest) s =
     (case epoch_body E T cfg train_loader val_loader epoch s of
        Inl x \<Rightarrow> (case x of (e, s') \<Rightarrow> (Some e, s'))
      | Inr s' \<Rightarrow> run_epochs E T cfg train_loader val_loader rest s')"

subsection \<open>The main program\<close>

text \<open>
  How the process ends: an uncaught exception, or \<open>sys.exit\<close> with a status. Both carry
  the events of the run. There is no third way: the last statement is \<open>sys.exit(1)\<close>.
\<close>

datatype ('sd, 't) outcome =
    Raised exn "('sd, 't) event list"
  | Exited int "('sd, 't) event list"

text \<open>\<open>range(a, b)\<close>.\<close>

definition py_range :: "int \<Rightarrow> int \<Rightarrow> int list" where
  "py_range a b = [a..b - 1]"

text \<open>
  Lines 143 to 180, from \<open>accelerator.prepare\<close> to the end. What lies before is
  construction by library calls and the assignments of lines 131 to 141; the model,
  optimizer and scheduler they leave and the variables \<open>start_num_epochs\<close>,
  \<open>train_step\<close>, \<open>val_step\<close>, \<open>best_score\<close> and \<open>best_metrics\<close> are the arguments here,
  with the types the loop keeps them at: integers, a one-element tensor or score read
  by \<open>.item()\<close>, a metrics dictionary. In the branch for validation alone the call names
  \<open>epoch\<close>, which only the \<open>for\<close> statement of the training branch binds: evaluating
  the arguments raises NameError before \<open>val_one_epoch\<close> is entered, and the two prints
  and \<open>sys.exit(1)\<close> are not reached.
\<close>

definition main ::
  "'sd env \<Rightarrow> ('sd, 't) torch \<Rightarrow> config \<Rightarrow> 't batch list \<Rightarrow> 't batch list \<Rightarrow> 'sd objs \<Rightarrow>
   int \<Rightarrow> int \<Rightarrow> int \<Rightarrow> pyfloat \<Rightarrow> metrics \<Rightarrow> ('sd, 't) outcome" where
  "main E T cfg train_loader val_loader objs0 start_num_epochs train_step val_step best_score
     best_metrics =
     (let W = prepare T objs0 in
      if is_train cfg then
        (case run_epochs E T cfg train_loader val_loader
                (py_range start_num_epochs (num_epochs cfg))
                \<lparr>st_objs = W, st_best_score = best_score, st_best_metrics = best_metrics,
                 st_train_step = train_step, st_val_step = val_step, st_trace = []\<rparr> of
           (r, s) \<Rightarrow>
             (case r of
                Some e \<Rightarrow> Raised e (st_trace s)
              | None \<Rightarrow>
                  Exited 1 (st_trace s @
                    [Print_score (st_best_score s), Print_metrics (st_best_metrics s)])))
      else Raised (NameError ''epoch'') [])"

text \<open>An event that writes a file or a directory below \<open>dir\<close>.\<close>

definition writes_under :: "path \<Rightarrow> ('sd, 't) event \<Rightarrow> bool" where
  "writes_under dir ev =
     (case ev of Save_state p \<Rightarrow> prefix dir p | Torch_save p v \<Rightarrow> prefix dir p | _ \<Rightarrow> False)"

text \<open>The events of a stretch of the run: those of \<open>s'\<close> that \<open>s\<close> does not have yet.\<close>

definition new_events :: "('sd, 't) run_state \<Rightarrow> ('sd, 't) run_state \<Rightarrow> ('sd, 't) event list" where
  "new_events s s' = drop (length (st_trace s)) (st_trace s')"

text \<open>The events that are a forward pass, a backward pass, a step of the optimizer.\<close>

definition is_forward :: "('sd, 't) event \<Rightarrow> bool" where
  "is_forward ev = (case ev of Forward x y \<Rightarrow> True | _ \<Rightarrow> False)"

definition is_backward :: "('sd, 't) event \<Rightarrow> bool" where
  "is_backward ev = (case ev of Backward l \<Rightarrow> True | _ \<Rightarrow> False)"

definition is_optimizer_step :: "('sd, 't) event \<Rightarrow> bool" where
  "is_optimizer_step ev = (case ev of Optimizer_step \<Rightarrow> True | _ \<Rightarrow> False)"

section \<open>A concrete library for the checks\<close>

text \<open>
  Tensors are integers. The model answers an image \<open>x\<close> with the four outputs
  \<open>x + 1\<close>, \<open>x + 2\<close>, \<open>x + 3\<close>, \<open>x + 4\<close>; the two losses keep both of their arguments
  readable in the result; validation always reports an IVT score of one quarter.
\<close>

definition example_metrics :: metrics where
  "example_metrics =
     [(''Val/I'', Fl (3/4)), (''Val/T'', Fl (1/2)), (''Val/V'', Fl (1/2)),
      (''Val/IVM'', Fl (1/4)), (''Val/ITM'', Fl (1/4)), (''Val/IVT'', Fl (1/4))]"

definition example_torch :: "((string \<times> int) list, int) torch" where
  "example_torch =
     \<lparr> model_call = (\<lambda>W img txt. ((img + 1, img + 2, img + 3, img + 4), W)),
       model_train = (\<lambda>W. W),
       state_dict_of = model_of,
       squeeze = (\<lambda>x. x),
       to_float = (\<lambda>x. x),
       CrossEntropyLoss = (\<lambda>x y. 100 * x + 10 * y),
       BCEWithLogitsLoss = (\<lambda>x y. 1000 * x + 10 * y),
       tensor_add = (\<lambda>x y. x + y),
       item = (\<lambda>x. Fl (of_int x)),
       backward = (\<lambda>l W. W),
       optimizer_step = (\<lambda>W. W),
       optimizer_zero_grad = (\<lambda>W. W),
       scheduler_step = (\<lambda>epoch W. W),
       prepare = (\<lambda>W. W),
       PA_val = (\<lambda>W loader step train. ((example_metrics, step + 1), W)) \<rparr>"

definition example_config :: config where
  "example_config =
     \<lparr> num_epochs = 2, val_training = False, is_train = True, resume_train = False,
       resume_test = False, checkpoint_name = ''run'' \<rparr>"

definition example_objs :: "(string \<times> int) list objs" where
  "example_objs =
     \<lparr> model_of = [(''fc.weight'', 0)], optimizer_of = Obj [(''lr'', 0)],
       scheduler_of = Obj [(''last_epoch'', 0)] \<rparr>"

definition example_state :: "pyfloat \<Rightarrow> ((string \<times> int) list, int) run_state" where
  "example_state best =
     \<lparr> st_objs = example_objs, st_best_score = best, st_best_metrics = [],
       st_train_step = 0, st_val_step = 0, st_trace = [] \<rparr>"

section \<open>EndoForm.py: AttentionClassifier on values\<close>

text \<open>
  A tensor of two dimensions: its rows, and the size of its last dimension, which a
  tensor keeps also when it has no row. Numbers are reals.
\<close>

record 'a tensor2 =
  ncols :: nat
  rows :: "'a list list"

text \<open>Row-major data cut into pieces of \<open>w\<close> elements.\<close>

definition chunks :: "nat \<Rightarrow> 'a list \<Rightarrow> 'a list list" where
  "chunks w d = map (\<lambda>i. take w (drop (i * w) d)) [0..<length d div w]"

text \<open>
  \<open>x.repeat(r0, r1, r2)\<close> on a tensor of two dimensions \<open>(B, n)\<close>: the tensor is read
  as \<open>(1, B, n)\<close> and tiled \<open>r0\<close>, \<open>r1\<close> and \<open>r2\<close> times along its three dimensions. The
  result has the shape \<open>(r0, r1 * B, r2 * n)\<close>.
\<close>

definition repeat3 :: "nat \<Rightarrow> nat \<Rightarrow> nat \<Rightarrow> 'a tensor2 \<Rightarrow> 'a list list list" where
  "repeat3 r0 r1 r2 x =
     concat (replicate r0
       [concat (replicate r1 (map (\<lambda>row. concat (replicate r2 row)) (rows x)))])"

text \<open>
  \<open>t.view(-1, w)\<close> on a tensor of three dimensions: the same data in row-major order,
  in rows of \<open>w\<close> elements. The number of elements must be a multiple of \<open>w\<close>.
\<close>

definition view_rows :: "nat \<Rightarrow> 'a list list list \<Rightarrow> exn + 'a tensor2" where
  "view_rows w t =
     (let d = concat (concat t) in
      if w = 0 \<or> length d mod w \<noteq> 0
      then Inl (RuntimeError ''shape is invalid for input'')
      else Inr \<lparr>ncols = w, rows = chunks w d\<rparr>)"

text \<open>A linear layer \<open>nn.Linear(in_features, out_features)\<close> with its parameters.\<close>

record linear =
  in_features :: nat
  out_features :: nat
  weight :: "real list list"
  bias :: "real list"

definition dot :: "real list \<Rightarrow> real list \<Rightarrow> real" where
  "dot x y = sum_list (map2 (*) x y)"

text \<open>The layer on a tensor whose last dimension must be \<open>in_features\<close>.\<close>

definition Linear_row :: "linear \<Rightarrow> real list \<Rightarrow> real list" where
  "Linear_row L x = map2 (\<lambda>w b. dot w x + b) (weight L) (bias L)"

definition Linear :: "linear \<Rightarrow> real tensor2 \<Rightarrow> exn + real tensor2" where
  "Linear L x =
     (if ncols x = in_features L
      then Inr \<lparr>ncols = out_features L, rows = map (Linear_row L) (rows x)\<rparr>
      else Inl (RuntimeError ''mat1 and mat2 shapes cannot be multiplied''))"

text \<open>Matrix product, and softmax along the last dimension.\<close>

definition matmul :: "real list list \<Rightarrow> real list list \<Rightarrow> real list list" where
  "matmul A B = map (\<lambda>r. map (\<lambda>c. dot r c) (transpose B)) A"

definition softmax :: "real list \<Rightarrow> real list" where
  "softmax xs = map (\<lambda>x. exp x / sum_list (map exp xs)) xs"

text \<open>
  \<open>x.view(batch_size, -1, num_heads, head_dim).transpose(1, 2)\<close> on a tensor of two
  dimensions: for every example the heads, for every head the positions, for every
  position \<open>head_dim\<close> numbers. With no example the dimension to infer is ambiguous.
\<close>

definition split_heads :: "nat \<Rightarrow> nat \<Rightarrow> real tensor2 \<Rightarrow> exn + real list list list list" where
  "split_heads H D x =
     (if rows x = [] \<or> H * D = 0 \<or> ncols x mod (H * D) \<noteq> 0
      then Inl (RuntimeError ''shape is invalid for input'')
      else Inr (map (\<lambda>row. transpose (map (chunks D) (chunks (H * D) row))) (rows x)))"

text \<open>
  The classifier: three projections, the number and size of the heads, the final layer.
\<close>

record classifier =
  query_proj :: linear
  key_proj :: linear
  value_proj :: linear
  num_heads :: nat
  head_dim :: nat
  mlp :: linear

text \<open>
  \<open>__init__\<close> with the values of the parameters: the sizes of the four layers, the
  division, the assertion.
\<close>

definition AttentionClassifier_init ::
  "nat \<Rightarrow> nat \<Rightarrow> nat \<Rightarrow> nat \<Rightarrow> nat \<Rightarrow>
   (real list list \<times> real list) \<Rightarrow> (real list list \<times> real list) \<Rightarrow>
   (real list list \<times> real list) \<Rightarrow> (real list list \<times> real list) \<Rightarrow> exn + classifier" where
  "AttentionClassifier_init query_dim key_dim value_dim n_heads num_class pq pk pv pm =
     (if n_heads = 0 then Inl (ZeroDivisionError ''integer division or modulo by zero'')
      else if (key_dim div n_heads) * n_heads \<noteq> key_dim
      then Inl (AssertionError ''key_dim must be divisible by num_heads'')
      else Inr \<lparr>
        query_proj = \<lparr>in_features = query_dim, out_features = key_dim,
                      weight = fst pq, bias = snd pq\<rparr>,
        key_proj = \<lparr>in_features = key_dim, out_features = key_dim,
                    weight = fst pk, bias = snd pk\<rparr>,
        value_proj = \<lparr>in_features = value_dim, out_features = key_dim,
                      weight = fst pv, bias = snd pv\<rparr>,
        num_heads = n_heads,
        head_dim = key_dim div n_heads,
        mlp = \<lparr>in_features = key_dim, out_features = num_class,
               weight = fst pm, bias = snd pm\<rparr>\<rparr>)"

text \<open>Lines 684 to 688: the three tensors the projections are applied to.\<close>

definition query_input :: "'a tensor2 \<Rightarrow> nat \<Rightarrow> exn + 'a tensor2" where
  "query_input instrument v_num = view_rows (ncols instrument * v_num) (repeat3 1 1 v_num instrument)"

definition key_input :: "'a tensor2 \<Rightarrow> nat \<Rightarrow> exn + 'a tensor2" where
  "key_input target v_num = view_rows (ncols target * v_num) (repeat3 1 1 v_num target)"

definition value_input :: "'a tensor2 \<Rightarrow> nat \<Rightarrow> exn + 'a tensor2" where
  "value_input verb i_num = view_rows (ncols verb * i_num) (repeat3 1 i_num 1 verb)"

text \<open>
  Lines 699 to 704 for one example and one head: scores, softmax, weighted values.
\<close>

definition attend :: "nat \<Rightarrow> real list list \<Rightarrow> real list list \<Rightarrow> real list list \<Rightarrow> real list list" where
  "attend D q k v =
     (let scores = map (map (\<lambda>s. s / sqrt (real D))) (matmul q (transpose k));
          attention = map softmax scores
      in matmul attention v)"

text \<open>
  What \<open>forward\<close> returns: after \<open>squeeze(1)\<close> a tensor of two dimensions when there is
  one position, of three dimensions otherwise.
\<close>

datatype logits = Rank2 "real tensor2" | Rank3 "real list list list"

definition AttentionClassifier_forward ::
  "classifier \<Rightarrow> real tensor2 \<times> real tensor2 \<times> real tensor2 \<Rightarrow> exn + logits" where
  "AttentionClassifier_forward C inputs =
     (case inputs of (instrument, target, verb) \<Rightarrow>
      let i_num = ncols instrument; t_num = ncols target; v_num = ncols verb in
      bind_exn (query_input instrument v_num) (\<lambda>query.
      bind_exn (key_input target v_num) (\<lambda>key.
      bind_exn (value_input verb i_num) (\<lambda>val.
      bind_exn (bind_exn (Linear (query_proj C) query) (split_heads (num_heads C) (head_dim C)))
        (\<lambda>q.
      bind_exn (bind_exn (Linear (key_proj C) key) (split_heads (num_heads C) (head_dim C)))
        (\<lambda>k.
      bind_exn (bind_exn (Linear (value_proj C) val) (split_heads (num_heads C) (head_dim C)))
        (\<lambda>v.
      let out = map (\<lambda>(qb, kb, vb). map (\<lambda>(qh, kh, vh). attend (head_dim C) qh kh vh)
                                        (zip qb (zip kb vb)))
                    (zip q (zip k v));
          merged = map (\<lambda>ob. map concat (transpose ob)) out
      in if list_all (\<lambda>ob. length ob = 1) merged
         then bind_exn (Linear (mlp C)
                 \<lparr>ncols = num_heads C * head_dim C, rows = map hd merged\<rparr>)
                (\<lambda>r. Inr (Rank2 r))
         else if num_heads C * head_dim C = in_features (mlp C)
         then Inr (Rank3 (map (map (Linear_row (mlp C))) merged))
         else Inl (RuntimeError ''mat1 and mat2 shapes cannot be multiplied''))))))))"

section \<open>EndoForm.py: the shapes of the forward pass\<close>

text \<open>
  The forward pass on shapes: every module maps the shape of its input to the shape of
  its output, or raises where the tensor library checks a size and the check fails. The
  numbers in the tensors play no part in these checks.
\<close>

type_synonym shape = "nat list"

subsection \<open>Operations of the tensor library\<close>

text \<open>
  Size of one spatial dimension after a convolution with kernel \<open>k\<close>, stride \<open>s\<close> and
  padding \<open>p\<close>; the padded input must hold the kernel.
\<close>

definition conv_size :: "nat \<Rightarrow> nat \<Rightarrow> nat \<Rightarrow> nat \<Rightarrow> nat" where
  "conv_size k s p h = (h + 2 * p - k) div s + 1"

definition conv_out :: "nat \<Rightarrow> nat \<Rightarrow> nat \<Rightarrow> nat \<Rightarrow> exn + nat" where
  "conv_out k s p h =
     (if h + 2 * p < k
      then Inl (RuntimeError ''Kernel size cannot be greater than actual input size'')
      else Inr (conv_size k s p h))"

text \<open>
  \<open>nn.Conv2d(cin, cout, k, s, p)\<close>, also grouped: the input has \<open>cin\<close> channels, with or
  without a batch dimension.
\<close>

fun Conv2d_shape :: "nat \<Rightarrow> nat \<Rightarrow> nat \<Rightarrow> nat \<Rightarrow> nat \<Rightarrow> shape \<Rightarrow> exn + shape" where
  "Conv2d_shape cin cout k s p [B, C, H, W] =
     (if C \<noteq> cin then Inl (RuntimeError ''input channels do not match the weight'')
      else bind_exn (conv_out k s p H) (\<lambda>H'.
           bind_exn (conv_out k s p W) (\<lambda>W'. Inr [B, cout, H', W'])))"
| "Conv2d_shape cin cout k s p [C, H, W] =
     (if C \<noteq> cin then Inl (RuntimeError ''input channels do not match the weight'')
      else bind_exn (conv_out k s p H) (\<lambda>H'.
           bind_exn (conv_out k s p W) (\<lambda>W'. Inr [cout, H', W'])))"
| "Conv2d_shape cin cout k s p x =
     Inl (RuntimeError ''Expected 3D (unbatched) or 4D (batched) input to conv2d'')"

text \<open>\<open>nn.Linear(fin, fout)\<close> acts on the last dimension, which must be \<open>fin\<close>.\<close>

definition Linear_shape :: "nat \<Rightarrow> nat \<Rightarrow> shape \<Rightarrow> exn + shape" where
  "Linear_shape fin fout x =
     (if x \<noteq> [] \<and> last x = fin then Inr (butlast x @ [fout])
      else Inl (RuntimeError ''mat1 and mat2 shapes cannot be multiplied''))"

definition LayerNorm_shape :: "nat \<Rightarrow> shape \<Rightarrow> exn + shape" where
  "LayerNorm_shape d x =
     (if x \<noteq> [] \<and> last x = d then Inr x
      else Inl (RuntimeError ''input does not match normalized_shape''))"

text \<open>
  \<open>nn.BatchNorm2d(c)\<close>: while training, one value per channel is refused. \<open>nn.GroupNorm\<close>
  with \<open>g\<close> groups runs the same check on \<open>(B * c div g, g, H, W)\<close> in either mode.
\<close>

fun BatchNorm2d_shape :: "bool \<Rightarrow> nat \<Rightarrow> shape \<Rightarrow> exn + shape" where
  "BatchNorm2d_shape training c [B, C, H, W] =
     (if C \<noteq> c then Inl (RuntimeError ''running_mean should contain C elements'')
      else if training \<and> B * H * W = 1
      then Inl (ValueError ''Expected more than 1 value per channel when training'')
      else Inr [B, C, H, W])"
| "BatchNorm2d_shape training c x = Inl (ValueError ''expected 4D input'')"

fun GroupNorm_shape :: "nat \<Rightarrow> nat \<Rightarrow> shape \<Rightarrow> exn + shape" where
  "GroupNorm_shape g c [B, C, H, W] =
     (if C \<noteq> c then Inl (RuntimeError ''Expected number of channels in input to be c'')
      else if (B * C div g) * H * W = 1
      then Inl (ValueError ''Expected more than 1 value per channel when training'')
      else Inr [B, C, H, W])"
| "GroupNorm_shape g c x = Inl (RuntimeError ''expected 4D input'')"

text \<open>\<open>nn.MaxPool2d(kernel_size=2, stride=2)\<close>: the output must not be empty.\<close>

definition pool_size :: "nat \<Rightarrow> nat" where
  "pool_size h = (h - 2) div 2 + 1"

definition pool_out :: "nat \<Rightarrow> exn + nat" where
  "pool_out h =
     (if h < 2 then Inl (RuntimeError ''Output size is too small'')
      else Inr (pool_size h))"

fun MaxPool2d_shape :: "shape \<Rightarrow> exn + shape" where
  "MaxPool2d_shape [B, C, H, W] =
     bind_exn (pool_out H) (\<lambda>H'. bind_exn (pool_out W) (\<lambda>W'. Inr [B, C, H', W']))"
| "MaxPool2d_shape x = Inl (RuntimeError ''expected 3D or 4D input'')"

text \<open>\<open>F.adaptive_avg_pool2d(x, (1, 1))\<close> and bilinear \<open>F.interpolate(x, size)\<close>.\<close>

fun adaptive_avg_pool2d_shape :: "shape \<Rightarrow> exn + shape" where
  "adaptive_avg_pool2d_shape [B, C, H, W] =
     (if H = 0 \<or> W = 0 then Inl (RuntimeError ''non-zero size expected for spatial dimensions'')
      else Inr [B, C, 1, 1])"
| "adaptive_avg_pool2d_shape x = Inl (RuntimeError ''expected 3D or 4D input'')"

fun Upsample_shape :: "shape \<Rightarrow> shape \<Rightarrow> exn + shape" where
  "Upsample_shape [B, C, H, W] [h, w] =
     (if H = 0 \<or> W = 0 \<or> h = 0 \<or> w = 0
      then Inl (RuntimeError ''Input and output sizes should be greater than 0'')
      else Inr [B, C, h, w])"
| "Upsample_shape x sz = Inl (ValueError ''input and size do not match'')"

text \<open>
  \<open>x.reshape(target)\<close> and \<open>x.view(target)\<close> with every size given, and with one size
  left to infer between \<open>pre\<close> and \<open>post\<close>.
\<close>

definition reshape_shape :: "shape \<Rightarrow> shape \<Rightarrow> exn + shape" where
  "reshape_shape target x =
     (if prod_list target = prod_list x then Inr target
      else Inl (RuntimeError ''shape is invalid for input''))"

definition reshape_infer :: "shape \<Rightarrow> shape \<Rightarrow> shape \<Rightarrow> exn + shape" where
  "reshape_infer pre post x =
     (let known = prod_list (pre @ post) in
      if known = 0 \<or> prod_list x mod known \<noteq> 0
      then Inl (RuntimeError ''shape is invalid for input'')
      else Inr (pre @ [prod_list x div known] @ post))"

text \<open>Adding two tensors, here always of one shape, and \<open>torch.cat\<close> along the channels.\<close>

definition add_shape :: "shape \<Rightarrow> shape \<Rightarrow> exn + shape" where
  "add_shape a b =
     (if a = b then Inr a else Inl (RuntimeError ''The size of tensor a must match the size of tensor b''))"

fun cat1_shape :: "shape \<Rightarrow> shape \<Rightarrow> exn + shape" where
  "cat1_shape [B, C, H, W] [B', C', H', W'] =
     (if B = B' \<and> H = H' \<and> W = W' then Inr [B, C + C', H, W]
      else Inl (RuntimeError ''Sizes of tensors must match except in dimension 1''))"
| "cat1_shape a b = Inl (RuntimeError ''Tensors must have same number of dimensions'')"

text \<open>\<open>x.chunk(2, dim=1)\<close> bound to two names: with one channel there is one chunk only.\<close>

fun chunk2_shape :: "shape \<Rightarrow> exn + (shape \<times> shape)" where
  "chunk2_shape [B, C, H, W] =
     (if C < 2 then Inl (ValueError ''not enough values to unpack (expected 2)'')
      else Inr ([B, (C + 1) div 2, H, W], [B, C - (C + 1) div 2, H, W]))"
| "chunk2_shape x = Inl (RuntimeError ''Dimension out of range'')"

subsection \<open>The backbone\<close>

text \<open>
  \<open>OverlapPatchEmbed.forward\<close>: the convolution, the unpacking of four sizes, the
  flattening to \<open>(B, H * W, E)\<close>, the normalization. It returns the tensor with \<open>H\<close>, \<open>W\<close>.
\<close>

definition OverlapPatchEmbed_shape ::
  "nat \<Rightarrow> nat \<Rightarrow> nat \<Rightarrow> nat \<Rightarrow> shape \<Rightarrow> exn + (shape \<times> nat \<times> nat)" where
  "OverlapPatchEmbed_shape patch_size stride in_chans embed_dim x =
     bind_exn (Conv2d_shape in_chans embed_dim patch_size stride (patch_size div 2) x) (\<lambda>y.
       case y of
         [B, E, H, W] \<Rightarrow>
           bind_exn (LayerNorm_shape embed_dim [B, H * W, E]) (\<lambda>z. Inr (z, H, W))
       | _ \<Rightarrow> Inl (ValueError ''not enough values to unpack (expected 4)''))"

text \<open>
  \<open>Attention.forward\<close>: queries \<open>(B, heads, N, c)\<close>; keys and values from the input, which
  is first reduced by a convolution of kernel and stride \<open>sr_ratio\<close> when that exceeds
  1; the result has the shape of the input.
\<close>

definition Attention_shape ::
  "nat \<Rightarrow> nat \<Rightarrow> nat \<Rightarrow> shape \<Rightarrow> nat \<Rightarrow> nat \<Rightarrow> exn + shape" where
  "Attention_shape d heads sr_ratio x H W =
     (case x of
        [B, N, C] \<Rightarrow>
          bind_exn (Linear_shape d d x) (\<lambda>q0.
          bind_exn (reshape_shape [B, N, heads, C div heads] q0) (\<lambda>q.
          bind_exn
            (if sr_ratio > 1 then
               bind_exn (reshape_shape [B, C, H, W] [B, C, N]) (\<lambda>x1.
               bind_exn (Conv2d_shape d d sr_ratio sr_ratio 0 x1) (\<lambda>x2.
               bind_exn (reshape_infer [B, C] [] x2) (\<lambda>x3.
               bind_exn (LayerNorm_shape d [x3 ! 0, x3 ! 2, x3 ! 1]) (\<lambda>x4.
               Linear_shape d (d * 2) x4))))
             else Linear_shape d (d * 2) x) (\<lambda>kv0.
          bind_exn (reshape_infer [B] [2, heads, C div heads] kv0) (\<lambda>kv.
          bind_exn (reshape_shape [B, N, C] [B, N, heads, C div heads]) (\<lambda>y.
          Linear_shape d d y)))))
      | _ \<Rightarrow> Inl (ValueError ''not enough values to unpack (expected 3)''))"

text \<open>\<open>DWConv.forward\<close> and \<open>Mlp.forward\<close>.\<close>

definition DWConv_shape :: "nat \<Rightarrow> shape \<Rightarrow> nat \<Rightarrow> nat \<Rightarrow> exn + shape" where
  "DWConv_shape d x H W =
     (case x of
        [B, N, C] \<Rightarrow>
          bind_exn (reshape_shape [B, C, H, W] [B, C, N]) (\<lambda>x1.
          bind_exn (Conv2d_shape d d 3 1 1 x1) (\<lambda>x2.
          case x2 of
            [B', C', H', W'] \<Rightarrow> Inr [B', H' * W', C']
          | _ \<Rightarrow> Inl (RuntimeError ''Dimension out of range'')))
      | _ \<Rightarrow> Inl (ValueError ''not enough values to unpack (expected 3)''))"

definition Mlp_shape :: "nat \<Rightarrow> nat \<Rightarrow> shape \<Rightarrow> nat \<Rightarrow> nat \<Rightarrow> exn + shape" where
  "Mlp_shape in_features' hidden_features x H W =
     bind_exn (Linear_shape in_features' hidden_features x) (\<lambda>x1.
     bind_exn (DWConv_shape hidden_features x1 H W) (\<lambda>x2.
     Linear_shape hidden_features in_features' x2))"

text \<open>\<open>Block.forward\<close>: two residual branches.\<close>

definition Block_shape ::
  "nat \<Rightarrow> nat \<Rightarrow> nat \<Rightarrow> nat \<Rightarrow> shape \<Rightarrow> nat \<Rightarrow> nat \<Rightarrow> exn + shape" where
  "Block_shape d heads mlp_ratio sr_ratio x H W =
     bind_exn (LayerNorm_shape d x) (\<lambda>n1.
     bind_exn (Attention_shape d heads sr_ratio n1 H W) (\<lambda>a.
     bind_exn (add_shape x a) (\<lambda>x1.
     bind_exn (LayerNorm_shape d x1) (\<lambda>n2.
     bind_exn (Mlp_shape d (d * mlp_ratio) n2 H W) (\<lambda>m.
     add_shape x1 m)))))"

text \<open>The blocks of one stage, one after the other.\<close>

fun Blocks_shape ::
  "nat \<Rightarrow> nat \<Rightarrow> nat \<Rightarrow> nat \<Rightarrow> nat \<Rightarrow> shape \<Rightarrow> nat \<Rightarrow> nat \<Rightarrow> exn + shape" where
  "Blocks_shape 0 d heads mlp_ratio sr_ratio x H W = Inr x"
| "Blocks_shape (Suc depth) d heads mlp_ratio sr_ratio x H W =
     bind_exn (Block_shape d heads mlp_ratio sr_ratio x H W)
       (\<lambda>y. Blocks_shape depth d heads mlp_ratio sr_ratio y H W)"

text \<open>
  One stage of \<open>forward_features\<close>: patch embedding, blocks, normalization, and the
  reshape to \<open>(B, H, W, -1)\<close> permuted to \<open>(B, E, H, W)\<close>. \<open>B\<close> is the first size of the
  input of the whole backbone.
\<close>

definition stage_shape ::
  "nat \<Rightarrow> nat \<Rightarrow> nat \<Rightarrow> nat \<Rightarrow> nat \<Rightarrow> nat \<Rightarrow> nat \<Rightarrow> nat \<Rightarrow> nat \<Rightarrow> shape \<Rightarrow> exn + shape" where
  "stage_shape B patch_size stride in_chans embed_dim heads mlp_ratio depth sr_ratio x =
     bind_exn (OverlapPatchEmbed_shape patch_size stride in_chans embed_dim x) (\<lambda>r.
       case r of (y, H, W) \<Rightarrow>
         bind_exn (Blocks_shape depth embed_dim heads mlp_ratio sr_ratio y H W) (\<lambda>z.
         bind_exn (LayerNorm_shape embed_dim z) (\<lambda>z1.
         bind_exn (reshape_infer [B, H, W] [] z1) (\<lambda>z2.
         Inr [z2 ! 0, z2 ! 3, z2 ! 1, z2 ! 2]))))"

text \<open>
  \<open>pvt_v2_b2\<close>: \<open>PyramidVisionTransformerImpr\<close> with heads 1, 2, 5, 8, MLP ratios 8, 8,
  4, 4, depths 3, 4, 6, 3 and reduction ratios 8, 4, 2, 1. Its forward pass returns the
  outputs of the four stages.
\<close>

definition pvt_v2_b2_shape ::
  "nat \<Rightarrow> nat \<times> nat \<times> nat \<times> nat \<Rightarrow> shape \<Rightarrow> exn + (shape \<times> shape \<times> shape \<times> shape)" where
  "pvt_v2_b2_shape in_chans embed_dims x =
     (case embed_dims of (e1, e2, e3, e4) \<Rightarrow>
      if x = [] then Inl (RuntimeError ''tuple index out of range'')
      else
        let B = x ! 0 in
        bind_exn (stage_shape B 7 4 in_chans e1 1 8 3 8 x) (\<lambda>c1.
        bind_exn (stage_shape B 3 2 e1 e2 2 8 4 4 c1) (\<lambda>c2.
        bind_exn (stage_shape B 3 2 e2 e3 5 4 6 2 c2) (\<lambda>c3.
        bind_exn (stage_shape B 3 2 e3 e4 8 4 3 1 c3) (\<lambda>c4.
        Inr (c1, c2, c3, c4))))))"

subsection \<open>The attention blocks and the classifiers\<close>

text \<open>\<open>BasicConv2d.forward\<close>: convolution, batch normalization, activation.\<close>

definition BasicConv2d_shape ::
  "bool \<Rightarrow> nat \<Rightarrow> nat \<Rightarrow> nat \<Rightarrow> nat \<Rightarrow> nat \<Rightarrow> shape \<Rightarrow> exn + shape" where
  "BasicConv2d_shape training in_planes out_planes kernel_size stride padding x =
     bind_exn (Conv2d_shape in_planes out_planes kernel_size stride padding x)
       (BatchNorm2d_shape training out_planes)"

text \<open>\<open>MLP.forward\<close>: two convolutions of kernel 1 around the activation.\<close>

definition MLP_shape :: "nat \<Rightarrow> nat \<Rightarrow> shape \<Rightarrow> exn + shape" where
  "MLP_shape d mlp_ratio x =
     bind_exn (Conv2d_shape d (d * mlp_ratio) 1 1 0 x) (Conv2d_shape (d * mlp_ratio) d 1 1 0)"

text \<open>\<open>GobleAttention.forward\<close>.\<close>

definition GobleAttention_shape ::
  "bool \<Rightarrow> nat \<Rightarrow> nat \<Rightarrow> nat \<Rightarrow> nat \<Rightarrow> shape \<Rightarrow> exn + shape" where
  "GobleAttention_shape training in_dim out_dim kernel_size mlp_ratio x =
     bind_exn (Conv2d_shape in_dim out_dim 3 1 1 x) (\<lambda>x1.
     bind_exn (GroupNorm_shape (out_dim div 2) out_dim x1) (\<lambda>identity.
     bind_exn (bind_exn (Conv2d_shape out_dim out_dim kernel_size 1 ((kernel_size - 1) div 2)
                           identity)
                 (BatchNorm2d_shape training out_dim)) (\<lambda>b.
     bind_exn (bind_exn (Conv2d_shape out_dim out_dim 1 1 0 identity)
                 (BatchNorm2d_shape training out_dim)) (\<lambda>a.
     bind_exn (add_shape b a) (\<lambda>s1.
     bind_exn (add_shape s1 identity) (\<lambda>s2.
     bind_exn (MLP_shape out_dim mlp_ratio s2) (\<lambda>m.
     add_shape m identity)))))))"

text \<open>\<open>LocalAttention.forward\<close>.\<close>

definition LocalAttention_shape :: "bool \<Rightarrow> nat \<Rightarrow> nat \<Rightarrow> shape \<Rightarrow> exn + shape" where
  "LocalAttention_shape training in_dim out_dim x =
     bind_exn (BatchNorm2d_shape training in_dim x) (\<lambda>x1.
     bind_exn (Conv2d_shape in_dim in_dim 1 1 0 x1) (\<lambda>x2.
     bind_exn (Conv2d_shape in_dim in_dim 3 1 1 x2) (\<lambda>x3.
     bind_exn (BatchNorm2d_shape training in_dim x3) (\<lambda>x4.
     Conv2d_shape in_dim out_dim 1 1 0 x4))))"

text \<open>
  \<open>AttentionBlock.forward\<close>: the channels are split in two, one half for each
  attention, and the two results are concatenated and reduced again.
\<close>

definition AttentionBlock_shape ::
  "bool \<Rightarrow> nat \<Rightarrow> nat \<Rightarrow> nat \<Rightarrow> nat \<Rightarrow> shape \<Rightarrow> exn + shape" where
  "AttentionBlock_shape training in_dim out_dim kernel_size mlp_ratio x =
     bind_exn (chunk2_shape x) (\<lambda>c.
       case c of (x_0, x_1) \<Rightarrow>
         bind_exn (GobleAttention_shape training (in_dim div 2) out_dim kernel_size mlp_ratio x_0)
           (\<lambda>g.
         bind_exn (LocalAttention_shape training (in_dim div 2) out_dim x_1) (\<lambda>l.
         bind_exn (cat1_shape g l) (\<lambda>y.
         BasicConv2d_shape training (out_dim * 2) out_dim 1 1 0 y))))"

text \<open>\<open>VerbClassifier.forward\<close>: pooling, \<open>x.view(x.size(0), -1)\<close>, the linear layer.\<close>

definition VerbClassifier_shape :: "nat \<Rightarrow> nat \<Rightarrow> shape \<Rightarrow> exn + shape" where
  "VerbClassifier_shape in_channels verb_channels x =
     bind_exn (adaptive_avg_pool2d_shape x) (\<lambda>x1.
     bind_exn (reshape_infer [x1 ! 0] [] x1) (\<lambda>x2.
     Linear_shape in_channels verb_channels x2))"

text \<open>
  \<open>CrossAttention.forward\<close>: the three convolutions of kernel 1; the two matrix products
  need the batch sizes and heights of both arguments to agree and the widths to fit; the
  result is added to the first argument.
\<close>

definition CrossAttention_shape :: "nat \<Rightarrow> shape \<Rightarrow> shape \<Rightarrow> exn + shape" where
  "CrossAttention_shape feature_dim x1 x2 =
     bind_exn (Conv2d_shape feature_dim (feature_dim div 8) 1 1 0 x1) (\<lambda>query.
     bind_exn (Conv2d_shape feature_dim (feature_dim div 8) 1 1 0 x2) (\<lambda>key.
     bind_exn (Conv2d_shape feature_dim feature_dim 1 1 0 x2) (\<lambda>val.
       case (query, key) of
         ([B, Cq, H, W], [B', Ck, H', W']) \<Rightarrow>
           if B = B' \<and> H = H' \<and> Cq = Ck
           then add_shape [B, feature_dim, H, W] x1
           else Inl (RuntimeError ''The size of tensor a must match the size of tensor b'')
       | _ \<Rightarrow> Inl (RuntimeError ''number of dims does not match in permute''))))"

text \<open>The shared convolutional stem of \<open>SiameseNetworkWithCrossAttention\<close>.\<close>

definition shared_conv_shape :: "nat \<Rightarrow> shape \<Rightarrow> exn + shape" where
  "shared_conv_shape input_channels x =
     bind_exn (Conv2d_shape input_channels 64 3 2 1 x) (\<lambda>x1.
     bind_exn (MaxPool2d_shape x1) (\<lambda>x2.
     bind_exn (Conv2d_shape 64 128 3 2 1 x2) (\<lambda>x3.
     MaxPool2d_shape x3)))"

text \<open>
  \<open>SiameseNetworkWithCrossAttention.forward\<close>: the stem on both images, attention in both
  directions, pooling, \<open>view(-1, 128)\<close>, one linear layer for each class of outputs.
\<close>

definition SiameseNetworkWithCrossAttention_shape ::
  "nat \<Rightarrow> nat \<Rightarrow> nat \<Rightarrow> shape \<Rightarrow> shape \<Rightarrow> exn + (shape \<times> shape)" where
  "SiameseNetworkWithCrossAttention_shape input_channels output_dim1 output_dim2 img1 img2 =
     bind_exn (shared_conv_shape input_channels img1) (\<lambda>shared_features1.
     bind_exn (shared_conv_shape input_channels img2) (\<lambda>shared_features2.
     bind_exn (CrossAttention_shape 128 shared_features1 shared_features2) (\<lambda>attended_features1.
     bind_exn (CrossAttention_shape 128 shared_features2 shared_features1) (\<lambda>attended_features2.
     bind_exn (adaptive_avg_pool2d_shape attended_features1) (\<lambda>pooled_features1.
     bind_exn (adaptive_avg_pool2d_shape attended_features2) (\<lambda>pooled_features2.
     bind_exn (bind_exn (reshape_infer [] [128] pooled_features1) (Linear_shape 128 output_dim1))
       (\<lambda>class1_features.
     bind_exn (bind_exn (reshape_infer [] [128] pooled_features2) (Linear_shape 128 output_dim2))
       (\<lambda>class2_features.
     Inr (class1_features, class2_features)))))))))"

text \<open>
  \<open>AttentionClassifier\<close> on shapes: \<open>__init__\<close> fixes the sizes of the four linear layers
  and of the heads; \<open>forward\<close> is followed step by step, the three inputs being tensors
  of two dimensions.
\<close>

definition AttentionClassifier_shape ::
  "nat \<Rightarrow> nat \<Rightarrow> nat \<Rightarrow> nat \<Rightarrow> nat \<Rightarrow> shape \<Rightarrow> shape \<Rightarrow> shape \<Rightarrow> exn + shape" where
  "AttentionClassifier_shape query_dim key_dim value_dim n_heads num_class instrument target verb =
     (case (instrument, target, verb) of
        ([Bi, i_num], [Bt, t_num], [Bv, v_num]) \<Rightarrow>
          let h_dim = key_dim div n_heads in
          bind_exn (reshape_infer [] [i_num * v_num] [1, Bi, i_num * v_num]) (\<lambda>query.
          bind_exn (reshape_infer [] [t_num * v_num] [1, Bt, t_num * v_num]) (\<lambda>key.
          bind_exn (reshape_infer [] [v_num * i_num] [1, i_num * Bv, v_num]) (\<lambda>val.
          let batch_size = query ! 0 in
          bind_exn (bind_exn (Linear_shape query_dim key_dim query)
                      (reshape_infer [batch_size] [n_heads, h_dim])) (\<lambda>q.
          bind_exn (bind_exn (Linear_shape key_dim key_dim key)
                      (reshape_infer [batch_size] [n_heads, h_dim])) (\<lambda>k.
          bind_exn (bind_exn (Linear_shape value_dim key_dim val)
                      (reshape_infer [batch_size] [n_heads, h_dim])) (\<lambda>v.
          if q ! 0 = k ! 0 \<and> k ! 0 = v ! 0 \<and> k ! 1 = v ! 1
          then
            bind_exn (reshape_infer [batch_size] [n_heads * h_dim] [q ! 0, q ! 1, q ! 2, q ! 3])
              (\<lambda>out.
            Linear_shape key_dim num_class
              (if out ! 1 = 1 then [out ! 0, out ! 2] else out))
          else Inl (RuntimeError ''The size of tensor a must match the size of tensor b'')))))))
      | _ \<Rightarrow> Inl (RuntimeError ''Number of dimensions of repeat dims does not fit''))"

subsection \<open>EndoForm\<close>

text \<open>The parameters of \<open>EndoForm.__init__\<close> that decide shapes, and their defaults.\<close>

record endoform =
  in_channels :: nat
  total_channels :: nat
  i_channels :: nat
  t_channels :: nat
  v_channels :: nat
  n_heads :: nat
  dims :: "nat \<times> nat \<times> nat \<times> nat"
  out_dim :: nat
  kernel_size :: nat
  mlp_ratio :: nat

definition EndoForm_default :: endoform where
  "EndoForm_default =
     \<lparr> in_channels = 3, total_channels = 100, i_channels = 6, t_channels = 15,
       v_channels = 10, n_heads = 10, dims = (64, 128, 320, 512), out_dim = 32,
       kernel_size = 3, mlp_ratio = 4 \<rparr>"

text \<open>
  \<open>EndoForm.forward\<close>, lines 752 to 774. The result is the tuple of the return
  statement: instrument, verb, target, triplet.
\<close>

definition EndoForm_forward_shape ::
  "endoform \<Rightarrow> bool \<Rightarrow> shape \<Rightarrow> exn + (shape \<times> shape \<times> shape \<times> shape)" where
  "EndoForm_forward_shape M training x =
     (case dims M of (c1_in_channels, c2_in_channels, c3_in_channels, c4_in_channels) \<Rightarrow>
      bind_exn (pvt_v2_b2_shape (in_channels M) (dims M) x) (\<lambda>pvt.
        case pvt of (c1, c2, c3, c4) \<Rightarrow>
          bind_exn (AttentionBlock_shape training c4_in_channels (out_dim M) (kernel_size M)
                      (mlp_ratio M) c4) (\<lambda>b4.
          bind_exn (Upsample_shape b4 (drop 2 c3)) (\<lambda>u4.
          bind_exn (AttentionBlock_shape training c3_in_channels (out_dim M) (kernel_size M)
                      (mlp_ratio M) c3) (\<lambda>b3.
          bind_exn (AttentionBlock_shape training c2_in_channels (out_dim M) (kernel_size M)
                      (mlp_ratio M) c2) (\<lambda>b2.
          bind_exn (Upsample_shape u4 (drop 2 c2)) (\<lambda>u42.
          bind_exn (Upsample_shape b3 (drop 2 c2)) (\<lambda>u32.
          bind_exn (cat1_shape u42 u32) (\<lambda>cat.
          bind_exn (BasicConv2d_shape training (out_dim M * 2) (out_dim M) 1 1 0 cat) (\<lambda>f.
          bind_exn (Conv2d_shape (out_dim M) (v_channels M) 1 1 0 f) (\<lambda>output.
          bind_exn (VerbClassifier_shape (v_channels M) (v_channels M) output) (\<lambda>verb_output.
          bind_exn (BasicConv2d_shape training c1_in_channels (out_dim M) 3 1 1 c1) (\<lambda>L_feature.
          bind_exn (BasicConv2d_shape training (out_dim M) (out_dim M) 1 1 0 b2) (\<lambda>H0.
          bind_exn (Upsample_shape H0 (drop 2 L_feature)) (\<lambda>H_feature.
          bind_exn (SiameseNetworkWithCrossAttention_shape (out_dim M) (i_channels M)
                      (t_channels M) L_feature H_feature) (\<lambda>two.
            case two of (instrument_output, target_output) \<Rightarrow>
              bind_exn (AttentionClassifier_shape (i_channels M * v_channels M)
                          (t_channels M * v_channels M) (v_channels M * i_channels M)
                          (n_heads M) (total_channels M)
                          instrument_output target_output verb_output) (\<lambda>triplet_output.
              Inr (instrument_output, verb_output, target_output, triplet_output))))))))))))))))))"

text \<open>Two examples in one batch: instrument and verb logits.\<close>

definition example_instrument :: "int tensor2" where
  "example_instrument = \<lparr>ncols = 6, rows = [ [1, 2, 3, 4, 5, 6], [7, 8, 9, 10, 11, 12] ]\<rparr>"

definition example_verb :: "int tensor2" where
  "example_verb = \<lparr>ncols = 10,
     rows = [ [10, 11, 12, 13, 14, 15, 16, 17, 18, 19],
              [20, 21, 22, 23, 24, 25, 26, 27, 28, 29] ]\<rparr>"

section \<open>Properties of utils.py\<close>

subsection \<open>add_tokens_tokenizer\<close>

text \<open>The loop collects, in order, the words that fail the membership test.\<close>

lemma collect_missing_eq:
  "collect_missing M tk ws add out =
     (add @ filter (\<lambda>w. \<not> in_vocab M tk w) ws,
      out @ map Not_in_vocabulary (filter (\<lambda>w. \<not> in_vocab M tk w) ws))"
  by (induction ws arbitrary: add out) auto

text \<open>
  Claim C5. For every tokenizer and every list of words, \<open>add_tokens_tokenizer\<close> hands
  to the tokenizer's \<open>add_tokens\<close> exactly the words of the list that are not in the
  vocabulary, in their order, and returns the tokenizer that call leaves. With a tokenizer
  library whose \<open>add_tokens\<close> puts every word it is given into the vocabulary and keeps
  the words already there, the vocabulary afterwards is the old one together with the
  words of the list, so every word of the list is in it.
\<close>

theorem add_tokens_tokenizer_adds_missing:
  assumes "\<And>tk ws w. in_vocab M (snd (add_tokens M tk ws)) w = (in_vocab M tk w \<or> w \<in> set ws)"
  shows "fst (add_tokens_tokenizer M tokenizer all_list) =
           snd (add_tokens M tokenizer (filter (\<lambda>w. \<not> in_vocab M tokenizer w) all_list))
         \<and> (\<forall>w \<in> set all_list. in_vocab M (fst (add_tokens_tokenizer M tokenizer all_list)) w)
         \<and> (\<forall>w. in_vocab M (fst (add_tokens_tokenizer M tokenizer all_list)) w =
                 (in_vocab M tokenizer w \<or> w \<in> set all_list))"
proof -
  let ?add = "filter (\<lambda>w. \<not> in_vocab M tokenizer w) all_list"
  have r: "fst (add_tokens_tokenizer M tokenizer all_list) = snd (add_tokens M tokenizer ?add)"
    by (simp add: add_tokens_tokenizer_def collect_missing_eq split: prod.splits)
  have v: "in_vocab M (snd (add_tokens M tokenizer ?add)) w =
             (in_vocab M tokenizer w \<or> w \<in> set all_list)" for w
    using assms [of tokenizer ?add w] by auto
  show ?thesis using r v by simp
qed

theorem add_tokens_tokenizer_adds_missing_witness:
  "fst (add_tokens_tokenizer list_tokenizer [''hook'', ''cut''] [''grasper'', ''hook'', ''clip''])
     = [''hook'', ''cut'', ''grasper'', ''clip'']
   \<and> in_vocab list_tokenizer
         (fst (add_tokens_tokenizer list_tokenizer [''hook'', ''cut'']
                [''grasper'', ''hook'', ''clip''])) ''grasper''
   \<and> in_vocab list_tokenizer
         (fst (add_tokens_tokenizer list_tokenizer [''hook'', ''cut'']
                [''grasper'', ''hook'', ''clip''])) ''hook''
   \<and> in_vocab list_tokenizer
         (fst (add_tokens_tokenizer list_tokenizer [''hook'', ''cut'']
                [''grasper'', ''hook'', ''clip''])) ''clip''"
proof -
  have c: "\<And>tk ws w. in_vocab list_tokenizer (snd (add_tokens list_tokenizer tk ws)) w =
             (in_vocab list_tokenizer tk w \<or> w \<in> set ws)"
    by (auto simp: list_tokenizer_def Let_def)
  from add_tokens_tokenizer_adds_missing [of list_tokenizer "[''hook'', ''cut'']"
         "[''grasper'', ''hook'', ''clip'']", OF c]
  show ?thesis by (simp add: list_tokenizer_def Let_def)
qed

subsection \<open>load_pretrain_model\<close>

lemma example_pretrained:
  "load_model_dict example_env ''/w/pretrained.bin'' =
     Inr (PState [(''fc.weight'', 7), (''head.bias'', 1)])"
  by (simp add: load_model_dict_def example_env_def example_files_def)

lemma example_missing:
  "load_model_dict example_env ''/w/none.bin'' = Inl (OSError ''No such file or directory'')"
  by (simp add: load_model_dict_def example_env_def example_files_def)

lemma example_strict_partial:
  "model_load_state_dict example_env [(''fc.weight'', 0)]
     (PState [(''fc.weight'', 7), (''head.bias'', 1)]) =
   ([(''fc.weight'', 7)], Some (RuntimeError ''Error(s) in loading state_dict''))"
  by (simp add: example_env_def strict_load_state_dict_def)

lemma example_strict_full:
  "model_load_state_dict example_env [(''fc.weight'', 0), (''head.bias'', 0)]
     (PState [(''fc.weight'', 7), (''head.bias'', 1)]) =
   ([(''fc.weight'', 7), (''head.bias'', 1)], None)"
  by (simp add: example_env_def strict_load_state_dict_def)

text \<open>
  Claim C6, as amended. When reading the file of weights raises, the exception and the
  failure text are printed and the model comes back exactly as it was. When
  \<open>model.load_state_dict\<close> raises, the exception and the failure text are printed and
  the model comes back in the state the failed call left it in. When both succeed, the
  success text is printed and the model carries the loaded state dict.
\<close>

theorem load_pretrain_model_cases:
  "(load_model_dict E pretrain_path = Inl e \<longrightarrow>
      load_pretrain_model E pretrain_path model =
        (model, [Line_exn e, Line_text ''Failed to load the training model!'']))
   \<and> (load_model_dict E pretrain_path = Inr state_dict \<and>
       model_load_state_dict E model state_dict = (model', Some e) \<longrightarrow>
      load_pretrain_model E pretrain_path model =
        (model', [Line_exn e, Line_text ''Failed to load the training model!'']))
   \<and> (load_model_dict E pretrain_path = Inr state_dict \<and>
       model_load_state_dict E model state_dict = (model', None) \<longrightarrow>
      load_pretrain_model E pretrain_path model =
        (model', [Line_text ''Successfully loaded the training model!'']))"
  by (simp add: load_pretrain_model_def)

theorem load_pretrain_model_cases_witness:
  "load_pretrain_model example_env ''/w/none.bin'' [(''fc.weight'', 0)] =
     ([(''fc.weight'', 0)],
      [Line_exn (OSError ''No such file or directory''),
       Line_text ''Failed to load the training model!''])
   \<and> load_pretrain_model example_env ''/w/pretrained.bin'' [(''fc.weight'', 0)] =
     ([(''fc.weight'', 7)],
      [Line_exn (RuntimeError ''Error(s) in loading state_dict''),
       Line_text ''Failed to load the training model!''])
   \<and> load_pretrain_model example_env ''/w/pretrained.bin''
        [(''fc.weight'', 0), (''head.bias'', 0)] =
     ([(''fc.weight'', 7), (''head.bias'', 1)],
      [Line_text ''Successfully loaded the training model!''])"
  using load_pretrain_model_cases [where E = example_env and pretrain_path = "''/w/none.bin''"
          and e = "OSError ''No such file or directory''" and model = "[(''fc.weight'', 0)]"]
        load_pretrain_model_cases [where E = example_env
          and pretrain_path = "''/w/pretrained.bin''" and model = "[(''fc.weight'', 0)]"
          and state_dict = "PState [(''fc.weight'', 7), (''head.bias'', 1)]"
          and model' = "[(''fc.weight'', 7)]"
          and e = "RuntimeError ''Error(s) in loading state_dict''"]
        load_pretrain_model_cases [where E = example_env
          and pretrain_path = "''/w/pretrained.bin''"
          and model = "[(''fc.weight'', 0), (''head.bias'', 0)]"
          and state_dict = "PState [(''fc.weight'', 7), (''head.bias'', 1)]"
          and model' = "[(''fc.weight'', 7), (''head.bias'', 1)]"]
        example_pretrained example_missing example_strict_partial example_strict_full
  by simp

text \<open>
  The claim as stated fails: a strict load that raises on an unexpected key has already
  overwritten the matching entry, and the handler returns the model with it.
\<close>

theorem load_pretrain_model_changes_model_counterexample:
  "snd (load_pretrain_model example_env ''/w/pretrained.bin'' [(''fc.weight'', 0)]) =
     [Line_exn (RuntimeError ''Error(s) in loading state_dict''),
      Line_text ''Failed to load the training model!'']
   \<and> fst (load_pretrain_model example_env ''/w/pretrained.bin'' [(''fc.weight'', 0)]) \<noteq>
     [(''fc.weight'', 0)]"
  by (simp add: load_pretrain_model_def example_pretrained example_strict_partial)

subsection \<open>resume_train_state\<close>

lemma read_epoch_checkpoint_load_fails:
  "torch_load E (base_path @ ''/epoch.pth.tar'') = Inl e \<Longrightarrow>
   read_epoch_checkpoint E base_path = Inl e"
  by (simp add: read_epoch_checkpoint_def bind_exn_def)

lemma example_cwd: "cwd example_env = ''/w''"
  by (simp add: example_env_def)

lemma example_read_run:
  "read_epoch_checkpoint example_env ''/w/model_store/run/checkpoint'' =
     Inr (PFloat (Fl (1/2)), PMetrics [(''Val/IVT'', Fl (1/2))], PInt 4, PInt 4, PInt 4)"
  by (simp add: read_epoch_checkpoint_def bind_exn_def example_env_def example_files_def)

lemma example_read_none:
  "read_epoch_checkpoint example_env ''/w/model_store/none/checkpoint'' =
     Inl (OSError ''No such file or directory'')"
  by (simp add: read_epoch_checkpoint_def bind_exn_def example_env_def example_files_def)

lemma example_weights_run:
  "load_pretrain_model example_env ''/w/model_store/run/checkpoint/pytorch_model.bin''
     [(''fc.weight'', 0)] =
   ([(''fc.weight'', 0)],
    [Line_exn (OSError ''No such file or directory''),
     Line_text ''Failed to load the training model!''])"
  by (simp add: load_pretrain_model_def load_model_dict_def example_env_def example_files_def)

lemma example_optimizer_ok:
  "load_optimizers_schedulers example_env ''/w/model_store/run/checkpoint''
     (Obj [(''lr'', 0)]) (Obj [(''last_epoch'', 0)]) =
   (None, Obj [(''lr'', 5)], Obj [(''last_epoch'', 3)])"
  by (simp add: load_optimizers_schedulers_def is_list_def call_load_state_dict_def
        example_env_def example_files_def strict_load_state_dict_def)

lemma example_optimizer_raises:
  "load_optimizers_schedulers example_env ''/w/model_store/run/checkpoint''
     (Obj [(''momentum'', 0)]) (Obj [(''last_epoch'', 0)]) =
   (Some (RuntimeError ''Error(s) in loading state_dict''),
    Obj [(''momentum'', 0)], Obj [(''last_epoch'', 0)])"
  by (simp add: load_optimizers_schedulers_def is_list_def call_load_state_dict_def
        example_env_def example_files_def strict_load_state_dict_def)

text \<open>
  A Python list of optimizers never loads: \<open>load_param\<close> asks it for \<open>keys()\<close>.
\<close>

lemma load_optimizers_list_raises:
  "load_optimizers_schedulers E base_path (PyList os) schedulers =
     (Some (AttributeError ''keys''), PyList os, schedulers)"
  by (simp add: load_optimizers_schedulers_def is_list_def load_param_def)

text \<open>
  Claim C1, as amended. When reading \<open>epoch.pth.tar\<close> or taking one of its five entries
  raises, the exception and the failure text are printed and the function returns the
  model, optimizers and schedulers it was given with epoch 0, both step counters 0, a
  zero best score and no best metrics. When the optimizer or scheduler state fails to
  load, the same fresh training state is returned with the three objects as the steps
  before the failure left them. In every other case, whatever happened while the model
  weights were loaded, the training state read from the checkpoint is returned.
\<close>

theorem resume_train_state_cases:
  "(read_epoch_checkpoint E (cwd E @ ''/model_store/'' @ checkpoint @ ''/checkpoint'') = Inl e
      \<longrightarrow>
    resume_train_state E model checkpoint optimizers schedulers =
      ((model, optimizers, schedulers, PInt 0, PInt 0, PInt 0, PFloat (Fl 0), PMetrics []),
       [Line_exn e, Line_text ''Failed to load training state!'']))
   \<and> (read_epoch_checkpoint E (cwd E @ ''/model_store/'' @ checkpoint @ ''/checkpoint'') =
         Inr (best_score, best_metrics, starting_epoch, train_step, val_step) \<and>
       load_pretrain_model E
         (cwd E @ ''/model_store/'' @ checkpoint @ ''/checkpoint'' @ ''/pytorch_model.bin'')
         model = (model', out) \<longrightarrow>
       (load_optimizers_schedulers E (cwd E @ ''/model_store/'' @ checkpoint @ ''/checkpoint'')
          optimizers schedulers = (Some e, optimizers', schedulers') \<longrightarrow>
        resume_train_state E model checkpoint optimizers schedulers =
          ((model', optimizers', schedulers', PInt 0, PInt 0, PInt 0, PFloat (Fl 0),
            PMetrics []),
           out @ [Line_exn e, Line_text ''Failed to load training state!'']))
       \<and> (load_optimizers_schedulers E
            (cwd E @ ''/model_store/'' @ checkpoint @ ''/checkpoint'')
            optimizers schedulers = (None, optimizers', schedulers') \<longrightarrow>
          resume_train_state E model checkpoint optimizers schedulers =
            ((model', optimizers', schedulers', starting_epoch, train_step, val_step,
              best_score, best_metrics),
             out @ [Line_resumed starting_epoch best_score])))"
  by (simp add: resume_train_state_def resume_try_def Let_def)

theorem resume_train_state_cases_witness:
  "resume_train_state example_env [(''fc.weight'', 0)] ''none''
     (Obj [(''lr'', 0)]) (Obj [(''last_epoch'', 0)]) =
     (([(''fc.weight'', 0)], Obj [(''lr'', 0)], Obj [(''last_epoch'', 0)],
       PInt 0, PInt 0, PInt 0, PFloat (Fl 0), PMetrics []),
      [Line_exn (OSError ''No such file or directory''),
       Line_text ''Failed to load training state!''])
   \<and> resume_train_state example_env [(''fc.weight'', 0)] ''run''
       (Obj [(''momentum'', 0)]) (Obj [(''last_epoch'', 0)]) =
     (([(''fc.weight'', 0)], Obj [(''momentum'', 0)], Obj [(''last_epoch'', 0)],
       PInt 0, PInt 0, PInt 0, PFloat (Fl 0), PMetrics []),
      [Line_exn (OSError ''No such file or directory''),
       Line_text ''Failed to load the training model!'',
       Line_exn (RuntimeError ''Error(s) in loading state_dict''),
       Line_text ''Failed to load training state!''])"
  using resume_train_state_cases [where E = example_env and checkpoint = "''none''"
          and e = "OSError ''No such file or directory''" and model = "[(''fc.weight'', 0)]"
          and optimizers = "Obj [(''lr'', 0)]" and schedulers = "Obj [(''last_epoch'', 0)]"]
        resume_train_state_cases [where E = example_env and checkpoint = "''run''"
          and e = "RuntimeError ''Error(s) in loading state_dict''"
          and model = "[(''fc.weight'', 0)]"
          and optimizers = "Obj [(''momentum'', 0)]" and schedulers = "Obj [(''last_epoch'', 0)]"
          and optimizers' = "Obj [(''momentum'', 0)]"
          and schedulers' = "Obj [(''last_epoch'', 0)]"
          and model' = "[(''fc.weight'', 0)]"
          and out = "[Line_exn (OSError ''No such file or directory''),
                      Line_text ''Failed to load the training model!'']"
          and best_score = "PFloat (Fl (1/2))"
          and best_metrics = "PMetrics [(''Val/IVT'', Fl (1/2))]"
          and starting_epoch = "PInt 4" and train_step = "PInt 4" and val_step = "PInt 4"]
        example_read_run example_read_none example_weights_run example_optimizer_raises
        example_cwd
  by simp

text \<open>
  The claim as stated fails for the model weights: their file is missing, the exception
  is printed by \<open>load_pretrain_model\<close>, and the function still resumes at epoch 4 with
  the stored score.
\<close>

theorem resume_train_state_weights_counterexample:
  "load_model_dict example_env ''/w/model_store/run/checkpoint/pytorch_model.bin'' =
     Inl (OSError ''No such file or directory'')
   \<and> resume_train_state example_env [(''fc.weight'', 0)] ''run''
       (Obj [(''lr'', 0)]) (Obj [(''last_epoch'', 0)]) =
     (([(''fc.weight'', 0)], Obj [(''lr'', 5)], Obj [(''last_epoch'', 3)],
       PInt 4, PInt 4, PInt 4, PFloat (Fl (1/2)), PMetrics [(''Val/IVT'', Fl (1/2))]),
      [Line_exn (OSError ''No such file or directory''),
       Line_text ''Failed to load the training model!'',
       Line_resumed (PInt 4) (PFloat (Fl (1/2)))])"
proof -
  have "load_model_dict example_env ''/w/model_store/run/checkpoint/pytorch_model.bin'' =
          Inl (OSError ''No such file or directory'')"
    by (simp add: load_model_dict_def example_env_def example_files_def)
  moreover have "resume_train_state example_env [(''fc.weight'', 0)] ''run''
       (Obj [(''lr'', 0)]) (Obj [(''last_epoch'', 0)]) =
     (([(''fc.weight'', 0)], Obj [(''lr'', 5)], Obj [(''last_epoch'', 3)],
       PInt 4, PInt 4, PInt 4, PFloat (Fl (1/2)), PMetrics [(''Val/IVT'', Fl (1/2))]),
      [Line_exn (OSError ''No such file or directory''),
       Line_text ''Failed to load the training model!'',
       Line_resumed (PInt 4) (PFloat (Fl (1/2)))])"
    by (simp add: resume_train_state_def resume_try_def Let_def example_cwd example_read_run
          example_weights_run example_optimizer_ok)
  ultimately show ?thesis by simp
qed

section \<open>Properties of train_one_epoch\<close>

text \<open>
  Claim C8, as amended. For every non-empty train loader, one call of
  \<open>train_one_epoch\<close> makes exactly one forward pass, on the first batch of the loader,
  exactly one backward pass and exactly one optimizer step, whatever the length of the
  loader, and returns the step counter it was given plus one.
\<close>

theorem train_one_epoch_one_pass:
  assumes "train_loader \<noteq> []"
  shows "length (filter is_forward (snd (snd (train_one_epoch T cfg train_loader epoch W step)))) = 1
       \<and> length (filter is_backward (snd (snd (train_one_epoch T cfg train_loader epoch W step)))) = 1
       \<and> length (filter is_optimizer_step
                  (snd (snd (train_one_epoch T cfg train_loader epoch W step)))) = 1
       \<and> filter is_forward (snd (snd (train_one_epoch T cfg train_loader epoch W step))) =
           [Forward (fst (hd train_loader)) (squeeze T (fst (snd (hd train_loader))))]
       \<and> fst (snd (train_one_epoch T cfg train_loader epoch W step)) = step + 1"
proof -
  obtain img tx y1 y2 y3 y4 rest where "train_loader = (img, tx, (y1, y2, y3, y4)) # rest"
    using assms by (cases train_loader) auto
  then show ?thesis
    by (simp add: train_one_epoch_def train_batch_def is_forward_def is_backward_def
          is_optimizer_step_def Let_def split: prod.splits)
qed

theorem train_one_epoch_one_pass_witness:
  "length (filter is_backward
     (snd (snd (train_one_epoch example_torch example_config
         [(7, 0, (1, 2, 3, 4)), (8, 0, (1, 2, 3, 4))] 0 example_objs 5)))) = 1
   \<and> fst (snd (train_one_epoch example_torch example_config
         [(7, 0, (1, 2, 3, 4)), (8, 0, (1, 2, 3, 4))] 0 example_objs 5)) = 6"
  using train_one_epoch_one_pass [of "[(7, 0, (1, 2, 3, 4)), (8, 0, (1, 2, 3, 4))]"
          example_torch example_config 0 example_objs 5]
  by simp

text \<open>
  The claim as stated fails on a loader of length zero: the loop body never runs, no pass
  and no optimizer step is made, and the step counter comes back as it was given.
\<close>

theorem train_one_epoch_empty_loader_counterexample:
  "fst (snd (train_one_epoch example_torch example_config [] 0 example_objs 5)) = 5
   \<and> filter is_forward
       (snd (snd (train_one_epoch example_torch example_config [] 0 example_objs 5))) = []
   \<and> filter is_backward
       (snd (snd (train_one_epoch example_torch example_config [] 0 example_objs 5))) = []
   \<and> filter is_optimizer_step
       (snd (snd (train_one_epoch example_torch example_config [] 0 example_objs 5))) = []"
  by (simp add: train_one_epoch_def example_config_def Let_def is_forward_def is_backward_def
        is_optimizer_step_def)

text \<open>
  Claim C9. For a training batch with labels \<open>y1\<close>, \<open>y2\<close>, \<open>y3\<close>, \<open>y4\<close> on which the
  model returns the outputs \<open>o1\<close>, \<open>o2\<close>, \<open>o3\<close>, \<open>o4\<close> in this order, the loss that is
  backpropagated is the sum, in this order, of the cross entropy of \<open>o1\<close> against \<open>y1\<close>,
  the cross entropy of \<open>o3\<close> against \<open>y2\<close> (logged as target_mask_loss), the cross
  entropy of \<open>o2\<close> against \<open>y3\<close> (logged as verb_mask_loss) and the binary cross entropy
  with logits of \<open>o4\<close> against \<open>y4\<close>: the second and third outputs are paired with \<open>y3\<close>
  and \<open>y2\<close>.
\<close>

theorem train_one_epoch_loss_pairing:
  assumes "train_loader = (img, txt, (y1, y2, y3, y4)) # rest"
    and "model_call T (model_train T W) img (squeeze T txt) = ((o1, o2, o3, o4), W1)"
  shows "filter is_backward (snd (snd (train_one_epoch T cfg train_loader epoch W step))) =
           [Backward (tensor_add T (tensor_add T (tensor_add T
                (CrossEntropyLoss T o1 (to_float T y1))
                (CrossEntropyLoss T o3 (to_float T y2)))
                (CrossEntropyLoss T o2 (to_float T y3)))
                (BCEWithLogitsLoss T o4 (to_float T y4)))]
       \<and> map_of (concat (map (\<lambda>ev. case ev of Log m k \<Rightarrow> m | _ \<Rightarrow> [])
                   (take 6 (snd (snd (train_one_epoch T cfg train_loader epoch W step))))))
           ''Train/target_mask_loss'' = Some (item T (CrossEntropyLoss T o3 (to_float T y2)))
       \<and> map_of (concat (map (\<lambda>ev. case ev of Log m k \<Rightarrow> m | _ \<Rightarrow> [])
                   (take 6 (snd (snd (train_one_epoch T cfg train_loader epoch W step))))))
           ''Train/verb_mask_loss'' = Some (item T (CrossEntropyLoss T o2 (to_float T y3)))"
  using assms
  by (simp add: train_one_epoch_def train_batch_def is_backward_def Let_def split: prod.splits)

theorem train_one_epoch_loss_pairing_witness:
  "filter is_backward
     (snd (snd (train_one_epoch example_torch example_config [(7, 0, (1, 2, 3, 4))] 0
                  example_objs 5))) = [Backward 13800]"
proof -
  have m: "model_call example_torch (model_train example_torch example_objs) 7
             (squeeze example_torch 0) = ((8, 9, 10, 11), example_objs)"
    by (simp add: example_torch_def)
  show ?thesis
    using train_one_epoch_loss_pairing [OF refl m, where rest = "[]" and cfg = example_config
            and epoch = 0 and step = 5 and ?y1.0 = 1 and ?y2.0 = 2 and ?y3.0 = 3 and ?y4.0 = 4]
    by (simp add: example_torch_def)
qed

section \<open>Properties of the training loop\<close>

subsection \<open>What one pass of the loop body does\<close>

lemma flt_trans: "flt a b \<Longrightarrow> flt b c \<Longrightarrow> flt a c"
  by (cases a; cases b; cases c) auto

lemma train_one_epoch_no_writes:
  "filter (writes_under d) (snd (snd (train_one_epoch T cfg train_loader epoch W step))) = []"
  by (cases train_loader)
     (auto simp: train_one_epoch_def train_batch_def writes_under_def Let_def split: prod.splits)

lemma train_one_epoch_no_saves:
  "Torch_save p v \<notin> set (snd (snd (train_one_epoch T cfg train_loader epoch W step)))"
  by (cases train_loader)
     (auto simp: train_one_epoch_def train_batch_def Let_def split: prod.splits)

lemma val_one_epoch_events:
  "val_one_epoch T cfg val_loader epoch W step = Inr (r, W', ev) \<Longrightarrow>
   filter (writes_under d) ev = [] \<and> Torch_save p v \<notin> set ev"
  by (auto simp: val_one_epoch_def writes_under_def split: prod.splits sum.splits)

lemma epoch_body_Inr:
  assumes "train_one_epoch T cfg train_loader epoch (st_objs s) (st_train_step s) = (W1, ts, ev1)"
    and "val_one_epoch T cfg val_loader epoch W1 (st_val_step s) =
           Inr ((score, metrics, vs), W2, ev2)"
  shows "epoch_body E T cfg train_loader val_loader epoch s =
     Inr \<lparr>st_objs = W2,
          st_best_score = (if flt (st_best_score s) score then score else st_best_score s),
          st_best_metrics = (if flt (st_best_score s) score then metrics else st_best_metrics s),
          st_train_step = ts, st_val_step = vs,
          st_trace = st_trace s @ ev1 @ ev2 @
            (if flt (st_best_score s) score then
               [Save_state (store_dir E cfg @ ''/best/new/''),
                Torch_save (store_dir E cfg @ ''/best/new/model.pth'')
                  (PState (state_dict_of T W2)),
                Torch_save (store_dir E cfg @ ''/best/epoch.pth.tar'')
                  (epoch_record epoch score metrics ts vs)]
             else []) @
            [Print_best (if flt (st_best_score s) score then score else st_best_score s),
             Print_text ''Checkout....'',
             Save_state (store_dir E cfg @ ''/checkpoint''),
             Torch_save (store_dir E cfg @ ''/checkpoint/epoch.pth.tar'')
               (epoch_record epoch
                  (if flt (st_best_score s) score then score else st_best_score s)
                  (if flt (st_best_score s) score then metrics else st_best_metrics s) ts vs),
             Print_text ''Checkout Over!'']\<rparr>"
  using assms by (simp add: epoch_body_def Let_def)

lemma epoch_body_Inl:
  "epoch_body E T cfg train_loader val_loader epoch s = Inl (e, s') \<Longrightarrow>
   st_best_score s' = st_best_score s \<and> st_best_metrics s' = st_best_metrics s
   \<and> st_trace s' =
       st_trace s @ snd (snd (train_one_epoch T cfg train_loader epoch (st_objs s)
                                 (st_train_step s)))"
  by (auto simp: epoch_body_def Let_def split: prod.splits sum.splits)

lemma epoch_body_cases:
  obtains (raised) e s' where "epoch_body E T cfg train_loader val_loader epoch s = Inl (e, s')"
  | (completed) W1 ts ev1 score metrics vs W2 ev2 where
      "train_one_epoch T cfg train_loader epoch (st_objs s) (st_train_step s) = (W1, ts, ev1)"
      "val_one_epoch T cfg val_loader epoch W1 (st_val_step s) =
         Inr ((score, metrics, vs), W2, ev2)"
proof -
  obtain W1 ts ev1 where
    t: "train_one_epoch T cfg train_loader epoch (st_objs s) (st_train_step s) = (W1, ts, ev1)"
    by (cases "train_one_epoch T cfg train_loader epoch (st_objs s) (st_train_step s)") auto
  show thesis
  proof (cases "val_one_epoch T cfg val_loader epoch W1 (st_val_step s)")
    case (Inl x)
    then show ?thesis
      using t raised by (cases x) (auto simp: epoch_body_def)
  next
    case (Inr r)
    then show ?thesis
      using t completed by (cases r) auto
  qed
qed

lemma new_events_eq: "st_trace s' = st_trace s @ ev \<Longrightarrow> new_events s s' = ev"
  by (simp add: new_events_def)

lemma epoch_body_trace:
  "epoch_body E T cfg train_loader val_loader epoch s = Inr s' \<Longrightarrow>
   st_trace s' = st_trace s @ new_events s s'"
  by (rule epoch_body_cases [of E T cfg train_loader val_loader epoch s])
     (auto simp: epoch_body_Inr new_events_def)

lemma epoch_body_trace_raised:
  "epoch_body E T cfg train_loader val_loader epoch s = Inl (e, s') \<Longrightarrow>
   st_trace s' = st_trace s @ new_events s s'"
  by (auto simp: new_events_def dest: epoch_body_Inl)

lemma run_epochs_trace:
  "run_epochs E T cfg train_loader val_loader epochs s = (r, s') \<Longrightarrow>
   st_trace s' = st_trace s @ new_events s s'"
proof (induction epochs arbitrary: s)
  case Nil
  then show ?case by (simp add: new_events_def)
next
  case (Cons epoch rest)
  show ?case
  proof (cases "epoch_body E T cfg train_loader val_loader epoch s")
    case (Inl x)
    then show ?thesis
      using Cons.prems epoch_body_trace_raised [of E T cfg train_loader val_loader epoch s]
      by (cases x) auto
  next
    case (Inr s1)
    then have r: "run_epochs E T cfg train_loader val_loader rest s1 = (r, s')"
      using Cons.prems by simp
    have "st_trace s' = st_trace s1 @ new_events s1 s'"
      using Cons.IH [OF r] .
    moreover have "st_trace s1 = st_trace s @ new_events s s1"
      using epoch_body_trace [OF Inr] .
    ultimately have "st_trace s' = st_trace s @ (new_events s s1 @ new_events s1 s')"
      by simp
    then show ?thesis
      using new_events_eq by fastforce
  qed
qed

lemma new_events_append:
  "st_trace s1 = st_trace s @ a \<Longrightarrow> st_trace s2 = st_trace s1 @ b \<Longrightarrow>
   new_events s s2 = a @ b"
  by (simp add: new_events_def)

lemma epoch_body_best:
  "epoch_body E T cfg train_loader val_loader epoch s = Inr s' \<Longrightarrow>
   st_best_score s' = st_best_score s \<or> flt (st_best_score s) (st_best_score s')"
  by (rule epoch_body_cases [of E T cfg train_loader val_loader epoch s])
     (auto simp: epoch_body_Inr)

lemma run_epochs_best:
  "run_epochs E T cfg train_loader val_loader epochs s = (r, s') \<Longrightarrow>
   st_best_score s' = st_best_score s \<or> flt (st_best_score s) (st_best_score s')"
proof (induction epochs arbitrary: s)
  case Nil
  then show ?case by simp
next
  case (Cons epoch rest)
  show ?case
  proof (cases "epoch_body E T cfg train_loader val_loader epoch s")
    case (Inl x)
    then show ?thesis
      using Cons.prems epoch_body_Inl [of E T cfg train_loader val_loader epoch s]
      by (cases x) auto
  next
    case (Inr s1)
    then have r: "run_epochs E T cfg train_loader val_loader rest s1 = (r, s')"
      using Cons.prems by simp
    from Cons.IH [OF r] epoch_body_best [OF Inr] show ?thesis
      by (auto dest: flt_trans)
  qed
qed

lemma best_dir_paths:
  "prefix (d @ ''/best/'') (d @ ''/best/new/'')"
  "prefix (d @ ''/best/'') (d @ ''/best/new/model.pth'')"
  "prefix (d @ ''/best/'') (d @ ''/best/epoch.pth.tar'')"
  "\<not> prefix (d @ ''/best/'') (d @ ''/checkpoint'')"
  "\<not> prefix (d @ ''/best/'') (d @ ''/checkpoint/epoch.pth.tar'')"
  by simp_all

lemma not_meta_suffix: "\<not> suffix ''/epoch.pth.tar'' (d @ ''/best/new/model.pth'')"
  by (simp add: suffix_to_prefix)

lemma epoch_body_meta:
  assumes "epoch_body E T cfg train_loader val_loader epoch s = Inr s1"
  shows "Torch_save (store_dir E cfg @ ''/checkpoint/epoch.pth.tar'')
           (PDict [(''epoch'', PInt epoch), (''best_score'', PFloat (st_best_score s1)),
                   (''best_metrics'', PMetrics (st_best_metrics s1)),
                   (''train_step'', PInt (st_train_step s1)),
                   (''val_step'', PInt (st_val_step s1))]) \<in> set (new_events s s1)"
    and "Torch_save p v \<in> set (new_events s s1) \<Longrightarrow> suffix ''/epoch.pth.tar'' p \<Longrightarrow>
         v = PDict [(''epoch'', PInt epoch), (''best_score'', PFloat (st_best_score s1)),
                   (''best_metrics'', PMetrics (st_best_metrics s1)),
                   (''train_step'', PInt (st_train_step s1)),
                   (''val_step'', PInt (st_val_step s1))]"
proof -
  show "Torch_save (store_dir E cfg @ ''/checkpoint/epoch.pth.tar'')
           (PDict [(''epoch'', PInt epoch), (''best_score'', PFloat (st_best_score s1)),
                   (''best_metrics'', PMetrics (st_best_metrics s1)),
                   (''train_step'', PInt (st_train_step s1)),
                   (''val_step'', PInt (st_val_step s1))]) \<in> set (new_events s s1)"
    using assms
    by (rule_tac epoch_body_cases [of E T cfg train_loader val_loader epoch s])
       (auto simp: epoch_body_Inr new_events_def epoch_record_def)
next
  assume m: "Torch_save p v \<in> set (new_events s s1)" and sf: "suffix ''/epoch.pth.tar'' p"
  show "v = PDict [(''epoch'', PInt epoch), (''best_score'', PFloat (st_best_score s1)),
                   (''best_metrics'', PMetrics (st_best_metrics s1)),
                   (''train_step'', PInt (st_train_step s1)),
                   (''val_step'', PInt (st_val_step s1))]"
  proof (rule epoch_body_cases [of E T cfg train_loader val_loader epoch s])
    fix e s'
    assume "epoch_body E T cfg train_loader val_loader epoch s = Inl (e, s')"
    then show ?thesis using assms by simp
  next
    fix W1 ts ev1 score metrics vs W2 ev2
    assume t: "train_one_epoch T cfg train_loader epoch (st_objs s) (st_train_step s) =
                 (W1, ts, ev1)"
      and v: "val_one_epoch T cfg val_loader epoch W1 (st_val_step s) =
                 Inr ((score, metrics, vs), W2, ev2)"
    have n1: "Torch_save p v \<notin> set ev1"
      using train_one_epoch_no_saves [of p v T cfg train_loader epoch "st_objs s"
              "st_train_step s"] t by simp
    have n2: "Torch_save p v \<notin> set ev2"
      using val_one_epoch_events [OF v] by simp
    show ?thesis
      using assms m sf n1 n2 not_meta_suffix [of "store_dir E cfg"]
      by (auto simp: epoch_body_Inr [OF t v] new_events_def epoch_record_def
            split: if_splits)
  qed
qed

lemma run_epochs_meta:
  "run_epochs E T cfg train_loader val_loader epochs s = (r, s2) \<Longrightarrow>
   Torch_save p v \<in> set (new_events s s2) \<Longrightarrow> suffix ''/epoch.pth.tar'' p \<Longrightarrow>
   \<exists>e bs bm ts vs.
     v = PDict [(''epoch'', PInt e), (''best_score'', PFloat bs), (''best_metrics'', PMetrics bm),
                (''train_step'', PInt ts), (''val_step'', PInt vs)]"
proof (induction epochs arbitrary: s)
  case Nil
  then show ?case by (simp add: new_events_def)
next
  case (Cons epoch rest)
  show ?case
  proof (cases "epoch_body E T cfg train_loader val_loader epoch s")
    case (Inl x)
    obtain e s' where x: "x = (e, s')" by (cases x)
    have "s2 = s'" using Cons.prems(1) Inl x by simp
    then have "new_events s s2 =
                 snd (snd (train_one_epoch T cfg train_loader epoch (st_objs s)
                             (st_train_step s)))"
      using epoch_body_Inl [of E T cfg train_loader val_loader epoch s e s'] Inl x
      by (simp add: new_events_def)
    then show ?thesis
      using Cons.prems(2) train_one_epoch_no_saves by metis
  next
    case (Inr s1)
    then have r: "run_epochs E T cfg train_loader val_loader rest s1 = (r, s2)"
      using Cons.prems by simp
    have "new_events s s2 = new_events s s1 @ new_events s1 s2"
      using epoch_body_trace [OF Inr] run_epochs_trace [OF r] new_events_append by metis
    then consider "Torch_save p v \<in> set (new_events s s1)"
      | "Torch_save p v \<in> set (new_events s1 s2)"
      using Cons.prems(2) by auto
    then show ?thesis
    proof cases
      case 1
      then show ?thesis
        using epoch_body_meta(2) [OF Inr 1 Cons.prems(3)] by blast
    next
      case 2
      from Cons.IH [OF r 2 Cons.prems(3)] show ?thesis .
    qed
  qed
qed

subsection \<open>One epoch of the concrete library\<close>

lemma example_store_dir: "store_dir example_env example_config = ''/w/model_store/run''"
  by (simp add: store_dir_def example_env_def example_config_def)

lemma example_train:
  "train_one_epoch example_torch example_config [(7, 0, (1, 2, 3, 4))] 0 example_objs 0 =
     (example_objs, 1,
      [Model_train, Forward 7 0, Backward 13800, Optimizer_step, Optimizer_zero_grad,
       Log [(''Train/Total Loss'', Fl 13800), (''Train/tool_mask_loss'', Fl 810),
            (''Train/target_mask_loss'', Fl 1020), (''Train/verb_mask_loss'', Fl 930),
            (''Train/loss_ivt'', Fl 11040)] 0,
       Print_train 1 2 1 1 (Fl 13800) (Fl 11040) (Fl 810) (Fl 930) (Fl 1020),
       Scheduler_step 0])"
  by (simp add: train_one_epoch_def train_batch_def example_torch_def example_config_def
        Let_def)

lemma example_val:
  "val_one_epoch example_torch example_config [] 0 example_objs 0 =
     Inr ((Fl (1/4), example_metrics, 1), example_objs,
          [Print_val 1 2 (Fl (1/4)) (Fl (3/4)) (Fl (1/2)) (Fl (1/2)) (Fl (1/4)) (Fl (1/4)),
           Log example_metrics 0])"
  by (simp add: val_one_epoch_def example_torch_def example_config_def example_metrics_def
        metric_def bind_exn_def)

lemma example_state_simps:
  "st_objs (example_state b) = example_objs"
  "st_best_score (example_state b) = b"
  "st_best_metrics (example_state b) = []"
  "st_train_step (example_state b) = 0"
  "st_val_step (example_state b) = 0"
  "st_trace (example_state b) = []"
  by (simp_all add: example_state_def)

lemma example_epoch:
  "\<exists>s1. epoch_body example_env example_torch example_config [(7, 0, (1, 2, 3, 4))] [] 0
          (example_state b) = Inr s1"
  using epoch_body_Inr [of example_torch example_config "[(7, 0, (1, 2, 3, 4))]" 0
          "example_state b" example_objs 1 _ "[]" "Fl (1/4)" example_metrics 1 example_objs _
          example_env]
        example_train example_val
  by (simp add: example_state_simps)

subsection \<open>Best score, metadata file, exit status\<close>

text \<open>
  Claim C3. In an epoch whose validation gives the IVT score \<open>score\<close>: when the best
  score so far is strictly below \<open>score\<close>, the best score becomes \<open>score\<close>, the best
  metrics become the metrics of this validation, and exactly three writes go below the
  \<open>best\<close> directory (the accelerator state, the model's state dict, the metadata file);
  otherwise best score and best metrics stay as they are and nothing is written below
  \<open>best\<close>. Over any number of epochs, the best score at the end is the best score at the
  start or strictly above it.
\<close>

theorem best_score_tracking:
  "(train_one_epoch T cfg train_loader epoch (st_objs s) (st_train_step s) = (W1, ts, ev1) \<and>
    val_one_epoch T cfg val_loader epoch W1 (st_val_step s) = Inr ((score, metrics, vs), W2, ev2)
    \<and> epoch_body E T cfg train_loader val_loader epoch s = Inr s1 \<longrightarrow>
      (flt (st_best_score s) score \<longrightarrow>
         st_best_score s1 = score \<and> st_best_metrics s1 = metrics \<and>
         filter (writes_under (store_dir E cfg @ ''/best/'')) (new_events s s1) =
           [Save_state (store_dir E cfg @ ''/best/new/''),
            Torch_save (store_dir E cfg @ ''/best/new/model.pth'') (PState (state_dict_of T W2)),
            Torch_save (store_dir E cfg @ ''/best/epoch.pth.tar'')
              (PDict [(''epoch'', PInt epoch), (''best_score'', PFloat score),
                      (''best_metrics'', PMetrics metrics), (''train_step'', PInt ts),
                      (''val_step'', PInt vs)])])
      \<and> (\<not> flt (st_best_score s) score \<longrightarrow>
         st_best_score s1 = st_best_score s \<and> st_best_metrics s1 = st_best_metrics s \<and>
         filter (writes_under (store_dir E cfg @ ''/best/'')) (new_events s s1) = []))
   \<and> (run_epochs E T cfg train_loader val_loader epochs s = (r, s2) \<longrightarrow>
        st_best_score s2 = st_best_score s \<or> flt (st_best_score s) (st_best_score s2))"
proof -
  have a: "filter (writes_under (store_dir E cfg @ ''/best/'')) ev1 = []"
    if "train_one_epoch T cfg train_loader epoch (st_objs s) (st_train_step s) = (W1, ts, ev1)"
    using train_one_epoch_no_writes
            [of "store_dir E cfg @ ''/best/''" T cfg train_loader epoch "st_objs s"
               "st_train_step s"] that
    by simp
  have b: "filter (writes_under (store_dir E cfg @ ''/best/'')) ev2 = []"
    if "val_one_epoch T cfg val_loader epoch W1 (st_val_step s) =
          Inr ((score, metrics, vs), W2, ev2)"
    using val_one_epoch_events [OF that] by simp
  show ?thesis
    using a b
    by (auto simp: epoch_body_Inr new_events_def writes_under_def best_dir_paths
          epoch_record_def dest: run_epochs_best)
qed

theorem best_score_tracking_witness:
  "(\<exists>s1. epoch_body example_env example_torch example_config [(7, 0, (1, 2, 3, 4))] [] 0
           (example_state (Fl 0)) = Inr s1
         \<and> st_best_score s1 = Fl (1/4) \<and> st_best_metrics s1 = example_metrics
         \<and> length (filter (writes_under ''/w/model_store/run/best/'')
                     (new_events (example_state (Fl 0)) s1)) = 3)
   \<and> (\<exists>s1. epoch_body example_env example_torch example_config [(7, 0, (1, 2, 3, 4))] [] 0
           (example_state (Fl (1/2))) = Inr s1
         \<and> st_best_score s1 = Fl (1/2) \<and> st_best_metrics s1 = []
         \<and> filter (writes_under ''/w/model_store/run/best/'')
             (new_events (example_state (Fl (1/2))) s1) = [])"
proof -
  obtain s1 where a: "epoch_body example_env example_torch example_config
      [(7, 0, (1, 2, 3, 4))] [] 0 (example_state (Fl 0)) = Inr s1"
    using example_epoch by blast
  obtain s2 where b: "epoch_body example_env example_torch example_config
      [(7, 0, (1, 2, 3, 4))] [] 0 (example_state (Fl (1/2))) = Inr s2"
    using example_epoch by blast
  have "st_best_score s1 = Fl (1/4) \<and> st_best_metrics s1 = example_metrics
         \<and> length (filter (writes_under ''/w/model_store/run/best/'')
                     (new_events (example_state (Fl 0)) s1)) = 3"
    using best_score_tracking [where T = example_torch and cfg = example_config
            and train_loader = "[(7, 0, (1, 2, 3, 4))]" and val_loader = "[]" and epoch = 0
            and s = "example_state (Fl 0)" and E = example_env and ?s1.0 = s1
            and score = "Fl (1/4)" and metrics = example_metrics and ts = 1 and vs = 1
            and ?W1.0 = example_objs and ?W2.0 = example_objs and epochs = "[]"]
          example_train example_val a
    by (simp add: example_state_simps example_store_dir)
  moreover have "st_best_score s2 = Fl (1/2) \<and> st_best_metrics s2 = []
         \<and> filter (writes_under ''/w/model_store/run/best/'')
             (new_events (example_state (Fl (1/2))) s2) = []"
    using best_score_tracking [where T = example_torch and cfg = example_config
            and train_loader = "[(7, 0, (1, 2, 3, 4))]" and val_loader = "[]" and epoch = 0
            and s = "example_state (Fl (1/2))" and E = example_env and ?s1.0 = s2
            and score = "Fl (1/4)" and metrics = example_metrics and ts = 1 and vs = 1
            and ?W1.0 = example_objs and ?W2.0 = example_objs and epochs = "[]"]
          example_train example_val b
    by (simp add: example_state_simps example_store_dir)
  ultimately show ?thesis using a b by blast
qed

text \<open>
  Claim C7. In every epoch that completes, \<open>checkpoint/epoch.pth.tar\<close> is written, and
  every write of a file named \<open>epoch.pth.tar\<close> in that epoch, below \<open>best\<close> or below
  \<open>checkpoint\<close>, stores the dictionary with exactly the five entries epoch, best_score,
  best_metrics, train_step and val_step, holding the epoch index and the values of the
  four variables after the epoch. Over a whole run of the loop, every such write stores
  a dictionary of exactly these five entries.
\<close>

theorem epoch_record_fields:
  "(epoch_body E T cfg train_loader val_loader epoch s = Inr s1 \<longrightarrow>
      Torch_save (store_dir E cfg @ ''/checkpoint/epoch.pth.tar'')
        (PDict [(''epoch'', PInt epoch), (''best_score'', PFloat (st_best_score s1)),
                (''best_metrics'', PMetrics (st_best_metrics s1)),
                (''train_step'', PInt (st_train_step s1)),
                (''val_step'', PInt (st_val_step s1))]) \<in> set (new_events s s1)
      \<and> (\<forall>p v. Torch_save p v \<in> set (new_events s s1) \<and> suffix ''/epoch.pth.tar'' p \<longrightarrow>
            v = PDict [(''epoch'', PInt epoch), (''best_score'', PFloat (st_best_score s1)),
                       (''best_metrics'', PMetrics (st_best_metrics s1)),
                       (''train_step'', PInt (st_train_step s1)),
                       (''val_step'', PInt (st_val_step s1))]))
   \<and> (run_epochs E T cfg train_loader val_loader epochs s = (r, s2) \<longrightarrow>
        (\<forall>p v. Torch_save p v \<in> set (new_events s s2) \<and> suffix ''/epoch.pth.tar'' p \<longrightarrow>
           (\<exists>e bs bm ts vs.
              v = PDict [(''epoch'', PInt e), (''best_score'', PFloat bs),
                         (''best_metrics'', PMetrics bm), (''train_step'', PInt ts),
                         (''val_step'', PInt vs)])))"
proof (intro conjI impI allI)
  assume "epoch_body E T cfg train_loader val_loader epoch s = Inr s1"
  then show "Torch_save (store_dir E cfg @ ''/checkpoint/epoch.pth.tar'')
        (PDict [(''epoch'', PInt epoch), (''best_score'', PFloat (st_best_score s1)),
                (''best_metrics'', PMetrics (st_best_metrics s1)),
                (''train_step'', PInt (st_train_step s1)),
                (''val_step'', PInt (st_val_step s1))]) \<in> set (new_events s s1)"
    by (rule epoch_body_meta(1))
next
  fix p v
  assume "epoch_body E T cfg train_loader val_loader epoch s = Inr s1"
    and "Torch_save p v \<in> set (new_events s s1) \<and> suffix ''/epoch.pth.tar'' p"
  then show "v = PDict [(''epoch'', PInt epoch), (''best_score'', PFloat (st_best_score s1)),
                       (''best_metrics'', PMetrics (st_best_metrics s1)),
                       (''train_step'', PInt (st_train_step s1)),
                       (''val_step'', PInt (st_val_step s1))]"
    using epoch_body_meta(2) by blast
next
  fix p v
  assume "run_epochs E T cfg train_loader val_loader epochs s = (r, s2)"
    and "Torch_save p v \<in> set (new_events s s2) \<and> suffix ''/epoch.pth.tar'' p"
  then show "\<exists>e bs bm ts vs.
              v = PDict [(''epoch'', PInt e), (''best_score'', PFloat bs),
                         (''best_metrics'', PMetrics bm), (''train_step'', PInt ts),
                         (''val_step'', PInt vs)]"
    using run_epochs_meta by blast
qed

theorem epoch_record_fields_witness:
  "\<exists>s1. epoch_body example_env example_torch example_config [(7, 0, (1, 2, 3, 4))] [] 0
          (example_state (Fl 0)) = Inr s1
        \<and> Torch_save ''/w/model_store/run/checkpoint/epoch.pth.tar''
            (PDict [(''epoch'', PInt 0), (''best_score'', PFloat (Fl (1/4))),
                    (''best_metrics'', PMetrics example_metrics), (''train_step'', PInt 1),
                    (''val_step'', PInt 1)])
          \<in> set (new_events (example_state (Fl 0)) s1)"
proof -
  obtain s1 where a: "epoch_body example_env example_torch example_config
      [(7, 0, (1, 2, 3, 4))] [] 0 (example_state (Fl 0)) = Inr s1"
    using example_epoch by blast
  have f: "st_best_score s1 = Fl (1/4) \<and> st_best_metrics s1 = example_metrics
           \<and> st_train_step s1 = 1 \<and> st_val_step s1 = 1"
    using a epoch_body_Inr [of example_torch example_config "[(7, 0, (1, 2, 3, 4))]" 0
          "example_state (Fl 0)" example_objs 1 _ "[]" "Fl (1/4)" example_metrics 1
          example_objs _ example_env] example_train example_val
    by (auto simp: example_state_simps)
  show ?thesis
    using epoch_record_fields [where E = example_env and T = example_torch
            and cfg = example_config and train_loader = "[(7, 0, (1, 2, 3, 4))]"
            and val_loader = "[]" and epoch = 0 and s = "example_state (Fl 0)"
            and ?s1.0 = s1 and epochs = "[]"] a f
    by (auto simp: example_store_dir)
qed

text \<open>
  With training switched on, a run that completes has gone through the loop without an
  exception and ends with \<open>sys.exit(1)\<close>, after the two prints.
\<close>

lemma main_training:
  assumes "is_train cfg"
    and "run_epochs E T cfg train_loader val_loader (py_range a (num_epochs cfg))
           \<lparr>st_objs = prepare T W, st_best_score = bs, st_best_metrics = bm,
            st_train_step = ts, st_val_step = vs, st_trace = []\<rparr> = (None, s)"
  shows "main E T cfg train_loader val_loader W a ts vs bs bm =
           Exited 1 (st_trace s @
             [Print_score (st_best_score s), Print_metrics (st_best_metrics s)])"
  using assms by (simp add: main_def Let_def)

lemma main_exited:
  "main E T cfg train_loader val_loader W a ts vs bs bm = Exited c tr \<Longrightarrow>
   c = 1 \<and> is_train cfg"
  by (auto simp: main_def Let_def split: prod.splits option.splits if_splits)

lemma example_main:
  "\<exists>tr. main example_env example_torch example_config [(7, 0, (1, 2, 3, 4))] []
          example_objs 0 0 0 (Fl 0) [] = Exited 1 tr"
  by (simp add: main_def example_config_def example_torch_def Let_def
        py_range_def upto.simps epoch_body_def train_one_epoch_def
        train_batch_def val_one_epoch_def metric_def example_metrics_def bind_exn_def)

text \<open>
  With training switched off the run never reaches its last statement: the call for
  validation alone names the loop variable \<open>epoch\<close>, which is unbound then.
\<close>

lemma main_validation_only:
  "\<not> is_train cfg \<Longrightarrow>
   main E T cfg train_loader val_loader W a ts vs bs bm = Raised (NameError ''epoch'') []"
  by (simp add: main_def Let_def)

text \<open>
  Claim C10. A run for validation alone (\<open>config.trainer.is_train\<close> false), here with
  one batch in each loader and the training setting of lines 131 to 135, does not end by
  \<open>sys.exit(1)\<close>: line 176 raises NameError for the unbound \<open>epoch\<close>, nothing is
  validated or printed, and the process ends by the uncaught exception.
\<close>

theorem main_validation_only_raises:
  "main example_env example_torch (example_config\<lparr>is_train := False\<rparr>)
     [(7, 0, (1, 2, 3, 4))] [(8, 0, (1, 2, 3, 4))] example_objs 0 0 0 (Fl 0) [] =
   Raised (NameError ''epoch'') []"
  by (simp add: main_def example_config_def Let_def)

section \<open>Properties of the shapes\<close>

subsection \<open>When an operation of the library returns, and what\<close>

lemma bind_exn_Inr: "bind_exn m f = Inr y \<longleftrightarrow> (\<exists>v. m = Inr v \<and> f v = Inr y)"
  by (cases m) (auto simp: bind_exn_def)

lemma conv_out_Inr: "conv_out k s p h = Inr h' \<longleftrightarrow> k \<le> h + 2 * p \<and> h' = conv_size k s p h"
  by (auto simp: conv_out_def)

lemma pool_out_Inr: "pool_out h = Inr h' \<longleftrightarrow> 2 \<le> h \<and> h' = pool_size h"
  by (auto simp: pool_out_def)

lemma conv_size_pos: "0 < conv_size k s p h"
  by (simp add: conv_size_def)

lemma conv_size_same:
  "1 \<le> h \<Longrightarrow> conv_size 3 1 1 h = h"
  "1 \<le> h \<Longrightarrow> conv_size 1 1 0 h = h"
  by (simp_all add: conv_size_def)

lemma Conv2d_shape_4:
  "Conv2d_shape cin cout k s p [B, C, H, W] = Inr y \<longleftrightarrow>
     C = cin \<and> k \<le> H + 2 * p \<and> k \<le> W + 2 * p \<and>
     y = [B, cout, conv_size k s p H, conv_size k s p W]"
  by (auto simp: bind_exn_Inr conv_out_Inr)

lemma BatchNorm2d_shape_4:
  "BatchNorm2d_shape training c [B, C, H, W] = Inr y \<longleftrightarrow>
     C = c \<and> \<not> (training \<and> B * H * W = 1) \<and> y = [B, C, H, W]"
  by auto

lemma GroupNorm_shape_4:
  "GroupNorm_shape g c [B, C, H, W] = Inr y \<longleftrightarrow>
     C = c \<and> (B * C div g) * H * W \<noteq> 1 \<and> y = [B, C, H, W]"
  by auto

lemma MaxPool2d_shape_4:
  "MaxPool2d_shape [B, C, H, W] = Inr y \<longleftrightarrow>
     2 \<le> H \<and> 2 \<le> W \<and> y = [B, C, pool_size H, pool_size W]"
  by (auto simp: bind_exn_Inr pool_out_Inr)

lemma adaptive_avg_pool2d_shape_4:
  "adaptive_avg_pool2d_shape [B, C, H, W] = Inr y \<longleftrightarrow> 0 < H \<and> 0 < W \<and> y = [B, C, 1, 1]"
  by auto

lemma Upsample_shape_4:
  "Upsample_shape [B, C, H, W] [h, w] = Inr y \<longleftrightarrow>
     0 < H \<and> 0 < W \<and> 0 < h \<and> 0 < w \<and> y = [B, C, h, w]"
  by auto

lemma Linear_shape_3:
  "Linear_shape fin fout [a, b, n] = Inr y \<longleftrightarrow> n = fin \<and> y = [a, b, fout]"
  by (auto simp: Linear_shape_def)

lemma Linear_shape_2:
  "Linear_shape fin fout [a, n] = Inr y \<longleftrightarrow> n = fin \<and> y = [a, fout]"
  by (auto simp: Linear_shape_def)

lemma LayerNorm_shape_3:
  "LayerNorm_shape d [a, b, n] = Inr y \<longleftrightarrow> n = d \<and> y = [a, b, n]"
  by (auto simp: LayerNorm_shape_def)

lemma add_shape_Inr: "add_shape a b = Inr y \<longleftrightarrow> a = b \<and> y = a"
  by (auto simp: add_shape_def)

lemma cat1_shape_4:
  "cat1_shape [B, C, H, W] [B', C', H', W'] = Inr y \<longleftrightarrow>
     B = B' \<and> H = H' \<and> W = W' \<and> y = [B, C + C', H, W]"
  by auto

lemma chunk2_shape_4:
  "chunk2_shape [B, C, H, W] = Inr y \<longleftrightarrow>
     2 \<le> C \<and> y = ([B, (C + 1) div 2, H, W], [B, C - (C + 1) div 2, H, W])"
  by auto

lemma reshape_shape_Inr:
  "reshape_shape target x = Inr y \<longleftrightarrow> prod_list target = prod_list x \<and> y = target"
  by (auto simp: reshape_shape_def)

lemma reshape_infer_Inr:
  "reshape_infer pre post x = Inr y \<longleftrightarrow>
     0 < prod_list (pre @ post) \<and> prod_list (pre @ post) dvd prod_list x \<and>
     y = pre @ [prod_list x div prod_list (pre @ post)] @ post"
  by (auto simp: reshape_infer_def Let_def mod_eq_0_iff_dvd)

text \<open>The inferred size, when the known sizes divide the number of elements.\<close>

lemma reshape_infer_exact:
  "prod_list x = prod_list (pre @ post) * m \<Longrightarrow>
   reshape_infer pre post x = Inr y \<longleftrightarrow> 0 < prod_list (pre @ post) \<and> y = pre @ [m] @ post"
  by (auto simp: reshape_infer_Inr)

lemma OverlapPatchEmbed_shape_length:
  "OverlapPatchEmbed_shape ps st cin e x = Inr r \<Longrightarrow> length x = 4"
  by (cases "(cin, e, ps, st, ps div 2, x)" rule: Conv2d_shape.cases)
     (auto simp: OverlapPatchEmbed_shape_def bind_exn_Inr conv_out_Inr split: if_splits)

declare Conv2d_shape.simps [simp del] BatchNorm2d_shape.simps [simp del]
  GroupNorm_shape.simps [simp del] MaxPool2d_shape.simps [simp del]
  adaptive_avg_pool2d_shape.simps [simp del] Upsample_shape.simps [simp del]
  cat1_shape.simps [simp del] chunk2_shape.simps [simp del]

text \<open>
  The two convolutions that keep the spatial size: kernel 3 with padding 1, and kernel 1.
\<close>

lemma Conv2d_shape_3x3:
  "Conv2d_shape cin cout 3 (Suc 0) (Suc 0) [B, C, H, W] = Inr y \<longleftrightarrow>
     C = cin \<and> 1 \<le> H \<and> 1 \<le> W \<and> y = [B, cout, H, W]"
  by (auto simp: Conv2d_shape_4 conv_size_def)

lemma Conv2d_shape_1x1:
  "Conv2d_shape cin cout (Suc 0) (Suc 0) 0 [B, C, H, W] = Inr y \<longleftrightarrow>
     C = cin \<and> 1 \<le> H \<and> 1 \<le> W \<and> y = [B, cout, H, W]"
  by (auto simp: Conv2d_shape_4 conv_size_def)

lemmas shape_simps =
  bind_exn_Inr Conv2d_shape_3x3 Conv2d_shape_1x1 BatchNorm2d_shape_4 GroupNorm_shape_4
  MaxPool2d_shape_4 adaptive_avg_pool2d_shape_4 Upsample_shape_4 Linear_shape_3 Linear_shape_2
  LayerNorm_shape_3 add_shape_Inr cat1_shape_4 chunk2_shape_4 reshape_shape_Inr

subsection \<open>The backbone\<close>

lemma OverlapPatchEmbed_shape_4:
  "OverlapPatchEmbed_shape ps st cin e [B, C, H, W] = Inr r \<longleftrightarrow>
     C = cin \<and> ps \<le> H + 2 * (ps div 2) \<and> ps \<le> W + 2 * (ps div 2) \<and>
     r = ([B, conv_size ps st (ps div 2) H * conv_size ps st (ps div 2) W, e],
          conv_size ps st (ps div 2) H, conv_size ps st (ps div 2) W)"
  by (auto simp: OverlapPatchEmbed_shape_def bind_exn_Inr Conv2d_shape_4 LayerNorm_shape_3)

lemma Attention_shape_iff:
  assumes "0 < d" and "heads * (d div heads) = d"
  shows "Attention_shape d heads sr [B, H * W, d] H W = Inr y \<longleftrightarrow>
     0 < B \<and> (1 < sr \<longrightarrow> sr \<le> H \<and> sr \<le> W) \<and> y = [B, H * W, d]"
proof -
  have k: "B * (2 * (heads * (d div heads))) = B * (2 * d)"
    using assms by simp
  have k2: "B * (H * W * (heads * (d div heads))) = B * (H * W * d)"
    using assms by simp
  show ?thesis
    using assms
    by (auto simp: Attention_shape_def shape_simps Conv2d_shape_4 reshape_infer_Inr k k2
          conv_size_def)
qed

lemma DWConv_shape_iff:
  "DWConv_shape d [B, H * W, d] H W = Inr y \<longleftrightarrow> 1 \<le> H \<and> 1 \<le> W \<and> y = [B, H * W, d]"
  by (auto simp: DWConv_shape_def shape_simps)

lemma Mlp_shape_iff:
  "Mlp_shape d hidden [B, H * W, d] H W = Inr y \<longleftrightarrow> 1 \<le> H \<and> 1 \<le> W \<and> y = [B, H * W, d]"
  by (auto simp: Mlp_shape_def shape_simps DWConv_shape_iff)

lemma Block_shape_iff:
  assumes "0 < d" and "heads * (d div heads) = d"
  shows "Block_shape d heads mr sr [B, H * W, d] H W = Inr y \<longleftrightarrow>
     0 < B \<and> (1 < sr \<longrightarrow> sr \<le> H \<and> sr \<le> W) \<and> 1 \<le> H \<and> 1 \<le> W \<and> y = [B, H * W, d]"
  by (auto simp: Block_shape_def shape_simps Attention_shape_iff [OF assms] Mlp_shape_iff)

lemma Blocks_shape_iff:
  assumes "0 < d" and "heads * (d div heads) = d"
  shows "Blocks_shape (Suc n) d heads mr sr [B, H * W, d] H W = Inr y \<longleftrightarrow>
     0 < B \<and> (1 < sr \<longrightarrow> sr \<le> H \<and> sr \<le> W) \<and> 1 \<le> H \<and> 1 \<le> W \<and> y = [B, H * W, d]"
proof (induction n)
  case 0
  show ?case
    by (auto simp: bind_exn_Inr Block_shape_iff [OF assms])
next
  case (Suc n)
  have "Blocks_shape (Suc (Suc n)) d heads mr sr [B, H * W, d] H W = Inr y \<longleftrightarrow>
        (\<exists>v. Block_shape d heads mr sr [B, H * W, d] H W = Inr v \<and>
             Blocks_shape (Suc n) d heads mr sr v H W = Inr y)"
    by (simp add: bind_exn_Inr)
  then show ?case
    using Suc by (auto simp: Block_shape_iff [OF assms])
qed

lemma reshape_stage:
  "reshape_infer [B, h, w] [] [B, h * w, e] = Inr y \<longleftrightarrow> 0 < B * (h * w) \<and> y = [B, h, w, e]"
  using reshape_infer_exact [of "[B, h * w, e]" "[B, h, w]" "[]" e y]
  by (simp add: mult.assoc)

lemma stage_shape_iff:
  assumes "0 < e" and "heads * (e div heads) = e"
  shows "stage_shape B ps st cin e heads mr (Suc n) sr [B, C, H, W] = Inr y \<longleftrightarrow>
     C = cin \<and> ps \<le> H + 2 * (ps div 2) \<and> ps \<le> W + 2 * (ps div 2) \<and> 0 < B \<and>
     (1 < sr \<longrightarrow> sr \<le> conv_size ps st (ps div 2) H \<and> sr \<le> conv_size ps st (ps div 2) W) \<and>
     y = [B, e, conv_size ps st (ps div 2) H, conv_size ps st (ps div 2) W]"
proof -
  let ?h = "conv_size ps st (ps div 2) H"
  let ?w = "conv_size ps st (ps div 2) W"
  have "stage_shape B ps st cin e heads mr (Suc n) sr [B, C, H, W] = Inr y \<longleftrightarrow>
     C = cin \<and> ps \<le> H + 2 * (ps div 2) \<and> ps \<le> W + 2 * (ps div 2) \<and>
     (\<exists>z. Blocks_shape (Suc n) e heads mr sr [B, ?h * ?w, e] ?h ?w = Inr z \<and>
          (\<exists>z1. LayerNorm_shape e z = Inr z1 \<and>
            (\<exists>z2. reshape_infer [B, ?h, ?w] [] z1 = Inr z2 \<and>
                  y = [z2 ! 0, z2 ! 3, z2 ! 1, z2 ! 2])))"
    by (auto simp: stage_shape_def bind_exn_Inr OverlapPatchEmbed_shape_4
          simp del: Blocks_shape.simps)
  also have "\<dots> \<longleftrightarrow> C = cin \<and> ps \<le> H + 2 * (ps div 2) \<and> ps \<le> W + 2 * (ps div 2) \<and> 0 < B \<and>
     (1 < sr \<longrightarrow> sr \<le> ?h \<and> sr \<le> ?w) \<and> y = [B, e, ?h, ?w]"
    unfolding Blocks_shape_iff [OF assms]
    using conv_size_pos [of ps st "ps div 2" H] conv_size_pos [of ps st "ps div 2" W]
    by (auto simp add: LayerNorm_shape_3 reshape_stage)
  finally show ?thesis .
qed

lemma stage1_iff:
  "stage_shape B 7 4 cin 64 1 8 3 8 [B, C, H, W] = Inr y \<longleftrightarrow>
     C = cin \<and> 0 < B \<and> 29 \<le> H \<and> 29 \<le> W \<and> y = [B, 64, conv_size 7 4 3 H, conv_size 7 4 3 W]"
proof -
  have a: "7 \<le> h + 6 \<and> 8 \<le> conv_size 7 4 3 h \<longleftrightarrow> 29 \<le> h" for h
    unfolding conv_size_def by arith
  have "stage_shape B 7 4 cin 64 1 8 3 8 [B, C, H, W] = Inr y \<longleftrightarrow>
     C = cin \<and> 7 \<le> H + 6 \<and> 7 \<le> W + 6 \<and> 0 < B \<and>
     8 \<le> conv_size 7 4 3 H \<and> 8 \<le> conv_size 7 4 3 W \<and>
     y = [B, 64, conv_size 7 4 3 H, conv_size 7 4 3 W]"
    using stage_shape_iff [of 64 1 B 7 4 cin 8 2 8 C H W y] by simp
  then show ?thesis
    using a [of H] a [of W] by blast
qed

lemma stage2_iff:
  "stage_shape B 3 2 cin 128 2 8 4 4 [B, C, H, W] = Inr y \<longleftrightarrow>
     C = cin \<and> 0 < B \<and> 7 \<le> H \<and> 7 \<le> W \<and> y = [B, 128, conv_size 3 2 1 H, conv_size 3 2 1 W]"
proof -
  have a: "3 \<le> h + 2 \<and> 4 \<le> conv_size 3 2 1 h \<longleftrightarrow> 7 \<le> h" for h
    unfolding conv_size_def by arith
  have "stage_shape B 3 2 cin 128 2 8 4 4 [B, C, H, W] = Inr y \<longleftrightarrow>
     C = cin \<and> 3 \<le> H + 2 \<and> 3 \<le> W + 2 \<and> 0 < B \<and>
     4 \<le> conv_size 3 2 1 H \<and> 4 \<le> conv_size 3 2 1 W \<and>
     y = [B, 128, conv_size 3 2 1 H, conv_size 3 2 1 W]"
    using stage_shape_iff [of 128 2 B 3 2 cin 8 3 4 C H W y] by simp
  then show ?thesis
    using a [of H] a [of W] by blast
qed

lemma stage3_iff:
  "stage_shape B 3 2 cin 320 5 4 6 2 [B, C, H, W] = Inr y \<longleftrightarrow>
     C = cin \<and> 0 < B \<and> 3 \<le> H \<and> 3 \<le> W \<and> y = [B, 320, conv_size 3 2 1 H, conv_size 3 2 1 W]"
proof -
  have a: "3 \<le> h + 2 \<and> 2 \<le> conv_size 3 2 1 h \<longleftrightarrow> 3 \<le> h" for h
    unfolding conv_size_def by arith
  have "stage_shape B 3 2 cin 320 5 4 6 2 [B, C, H, W] = Inr y \<longleftrightarrow>
     C = cin \<and> 3 \<le> H + 2 \<and> 3 \<le> W + 2 \<and> 0 < B \<and>
     2 \<le> conv_size 3 2 1 H \<and> 2 \<le> conv_size 3 2 1 W \<and>
     y = [B, 320, conv_size 3 2 1 H, conv_size 3 2 1 W]"
    using stage_shape_iff [of 320 5 B 3 2 cin 4 5 2 C H W y] by simp
  then show ?thesis
    using a [of H] a [of W] by blast
qed

lemma stage4_iff:
  "stage_shape B 3 2 cin 512 8 4 3 1 [B, C, H, W] = Inr y \<longleftrightarrow>
     C = cin \<and> 0 < B \<and> 1 \<le> H \<and> 1 \<le> W \<and> y = [B, 512, conv_size 3 2 1 H, conv_size 3 2 1 W]"
proof -
  have a: "3 \<le> h + 2 \<longleftrightarrow> 1 \<le> h" for h :: nat
    by arith
  have "stage_shape B 3 2 cin 512 8 4 3 1 [B, C, H, W] = Inr y \<longleftrightarrow>
     C = cin \<and> 3 \<le> H + 2 \<and> 3 \<le> W + 2 \<and> 0 < B \<and>
     y = [B, 512, conv_size 3 2 1 H, conv_size 3 2 1 W]"
    using stage_shape_iff [of 512 8 B 3 2 cin 4 2 1 C H W y] by simp
  then show ?thesis
    using a [of H] a [of W] by blast
qed

text \<open>
  The backbone takes images of three channels, at least one of them, of height and width
  at least 29, and nothing else.
\<close>

lemma pvt_v2_b2_shape_length:
  "pvt_v2_b2_shape cin ed x = Inr r \<Longrightarrow> length x = 4"
  by (cases ed)
     (auto simp: pvt_v2_b2_shape_def stage_shape_def bind_exn_Inr Let_def split: if_splits
        dest: OverlapPatchEmbed_shape_length)

lemma pvt_v2_b2_shape_iff:
  "pvt_v2_b2_shape 3 (64, 128, 320, 512) [B, C, H, W] = Inr r \<longleftrightarrow>
     C = 3 \<and> 0 < B \<and> 29 \<le> H \<and> 29 \<le> W \<and>
     r = ([B, 64, conv_size 7 4 3 H, conv_size 7 4 3 W],
          [B, 128, conv_size 3 2 1 (conv_size 7 4 3 H), conv_size 3 2 1 (conv_size 7 4 3 W)],
          [B, 320, conv_size 3 2 1 (conv_size 3 2 1 (conv_size 7 4 3 H)),
                   conv_size 3 2 1 (conv_size 3 2 1 (conv_size 7 4 3 W))],
          [B, 512, conv_size 3 2 1 (conv_size 3 2 1 (conv_size 3 2 1 (conv_size 7 4 3 H))),
                   conv_size 3 2 1 (conv_size 3 2 1 (conv_size 3 2 1 (conv_size 7 4 3 W)))])"
proof -
  have a: "29 \<le> h \<Longrightarrow> 7 \<le> conv_size 7 4 3 h \<and> 3 \<le> conv_size 3 2 1 (conv_size 7 4 3 h)
            \<and> 1 \<le> conv_size 3 2 1 (conv_size 3 2 1 (conv_size 7 4 3 h))" for h
    unfolding conv_size_def by arith
  show ?thesis
    using a [of H] a [of W]
    by (auto simp: pvt_v2_b2_shape_def bind_exn_Inr stage1_iff stage2_iff stage3_iff stage4_iff
          simp del: One_nat_def)
qed

subsection \<open>The attention blocks and the classifiers\<close>

lemma Conv2d_shape_same:
  "Conv2d_shape cin cout 3 1 1 [B, C, H, W] = Inr y \<longleftrightarrow>
     C = cin \<and> 1 \<le> H \<and> 1 \<le> W \<and> y = [B, cout, H, W]"
  "Conv2d_shape cin cout 1 1 0 [B, C, H, W] = Inr y \<longleftrightarrow>
     C = cin \<and> 1 \<le> H \<and> 1 \<le> W \<and> y = [B, cout, H, W]"
  by (auto simp: Conv2d_shape_4 conv_size_def)

lemmas head_simps =
  bind_exn_Inr Conv2d_shape_same BatchNorm2d_shape_4 GroupNorm_shape_4 MaxPool2d_shape_4
  adaptive_avg_pool2d_shape_4 Upsample_shape_4 Linear_shape_2 add_shape_Inr cat1_shape_4
  chunk2_shape_4

lemma BasicConv2d_shape_iff:
  "BasicConv2d_shape training cin cout 1 1 0 [B, C, H, W] = Inr y \<longleftrightarrow>
     C = cin \<and> 1 \<le> H \<and> 1 \<le> W \<and> \<not> (training \<and> B * H * W = 1) \<and> y = [B, cout, H, W]"
  "BasicConv2d_shape training cin cout 3 1 1 [B, C, H, W] = Inr y \<longleftrightarrow>
     C = cin \<and> 1 \<le> H \<and> 1 \<le> W \<and> \<not> (training \<and> B * H * W = 1) \<and> y = [B, cout, H, W]"
  by (auto simp: BasicConv2d_shape_def head_simps simp del: One_nat_def)

lemma MLP_shape_iff:
  "MLP_shape d mr [B, C, H, W] = Inr y \<longleftrightarrow> C = d \<and> 1 \<le> H \<and> 1 \<le> W \<and> y = [B, d, H, W]"
  by (auto simp: MLP_shape_def head_simps simp del: One_nat_def)

lemma GobleAttention_shape_iff:
  "GobleAttention_shape training cin 32 3 4 [B, C, H, W] = Inr y \<longleftrightarrow>
     C = cin \<and> 1 \<le> H \<and> 1 \<le> W \<and> \<not> (training \<and> B * H * W = 1) \<and> y = [B, 32, H, W]"
proof -
  have "B * 32 div 16 = 2 * B" by simp
  then have "even ((B * 32 div 16) * H * W)" by simp
  then have g: "(B * 32 div 16) * H * W \<noteq> 1"
    by (metis odd_one)
  have k: "(3 - 1) div 2 = (1::nat)" "32 div 2 = (16::nat)" by simp_all
  show ?thesis
    unfolding GobleAttention_shape_def k
    using g by (auto simp: head_simps MLP_shape_iff simp del: One_nat_def)
qed

lemma LocalAttention_shape_iff:
  "LocalAttention_shape training cin cout [B, C, H, W] = Inr y \<longleftrightarrow>
     C = cin \<and> 1 \<le> H \<and> 1 \<le> W \<and> \<not> (training \<and> B * H * W = 1) \<and> y = [B, cout, H, W]"
  by (auto simp: LocalAttention_shape_def head_simps simp del: One_nat_def)

lemma AttentionBlock_shape_iff:
  assumes "even cin" and "2 \<le> cin"
  shows "AttentionBlock_shape training cin 32 3 4 [B, cin, H, W] = Inr y \<longleftrightarrow>
     1 \<le> H \<and> 1 \<le> W \<and> \<not> (training \<and> B * H * W = 1) \<and> y = [B, 32, H, W]"
proof -
  have c: "(cin + 1) div 2 = cin div 2" "cin - cin div 2 = cin div 2"
    using assms by (auto elim!: evenE)
  have k: "32 * 2 = (64::nat)" "32 + 32 = (64::nat)" by simp_all
  show ?thesis
    unfolding AttentionBlock_shape_def
    using assms(2)
    by (auto simp: head_simps c k GobleAttention_shape_iff LocalAttention_shape_iff
          BasicConv2d_shape_iff simp del: One_nat_def)
qed

lemma VerbClassifier_shape_iff:
  "VerbClassifier_shape c vc [B, c, H, W] = Inr y \<longleftrightarrow>
     0 < H \<and> 0 < W \<and> 0 < B \<and> y = [B, vc]"
proof -
  have r: "reshape_infer [B] [] [B, c, 1, 1] = Inr z \<longleftrightarrow> 0 < B \<and> z = [B, c]" for z
    using reshape_infer_exact [of "[B, c, 1, 1]" "[B]" "[]" c z] by auto
  show ?thesis
    unfolding VerbClassifier_shape_def
    by (auto simp: head_simps r simp del: One_nat_def)
qed

lemma CrossAttention_shape_iff:
  "CrossAttention_shape 128 [B, 128, H, W] [B, 128, H, W] = Inr y \<longleftrightarrow>
     1 \<le> H \<and> 1 \<le> W \<and> y = [B, 128, H, W]"
  by (auto simp: CrossAttention_shape_def head_simps simp del: One_nat_def)

lemma shared_conv_shape_iff:
  "shared_conv_shape cin [B, C, H, W] = Inr y \<longleftrightarrow>
     C = cin \<and> 11 \<le> H \<and> 11 \<le> W \<and>
     y = [B, 128, pool_size (conv_size 3 2 1 (pool_size (conv_size 3 2 1 H))),
                  pool_size (conv_size 3 2 1 (pool_size (conv_size 3 2 1 W)))]"
proof -
  have a: "3 \<le> h + 2 * 1 \<and> 2 \<le> conv_size 3 2 1 h \<and>
           3 \<le> pool_size (conv_size 3 2 1 h) + 2 * 1 \<and>
           2 \<le> conv_size 3 2 1 (pool_size (conv_size 3 2 1 h)) \<longleftrightarrow> 11 \<le> h" for h
    unfolding conv_size_def pool_size_def by arith
  show ?thesis
    unfolding shared_conv_shape_def
    using a [of H] a [of W]
    by (auto simp: bind_exn_Inr Conv2d_shape_4 MaxPool2d_shape_4 simp del: One_nat_def)
qed

lemma SiameseNetworkWithCrossAttention_shape_iff:
  "SiameseNetworkWithCrossAttention_shape cin o1 o2 [B, C, H, W] [B, C, H, W] = Inr y \<longleftrightarrow>
     C = cin \<and> 11 \<le> H \<and> 11 \<le> W \<and> y = ([B, o1], [B, o2])"
proof -
  have r: "reshape_infer [] [128] [B, 128, 1, 1] = Inr z \<longleftrightarrow> z = [B, 128]" for z
    using reshape_infer_exact [of "[B, 128, 1, 1]" "[]" "[128]" B z] by auto
  have p: "11 \<le> h \<Longrightarrow> 1 \<le> pool_size (conv_size 3 2 1 (pool_size (conv_size 3 2 1 h)))" for h
    unfolding conv_size_def pool_size_def by arith
  show ?thesis
    unfolding SiameseNetworkWithCrossAttention_shape_def
    using p [of H] p [of W]
    by (auto simp: head_simps shared_conv_shape_iff CrossAttention_shape_iff r
          simp del: One_nat_def)
qed

lemma AttentionClassifier_shape_iff:
  "AttentionClassifier_shape 60 150 60 10 100 [B, 6] [B, 15] [B, 10] = Inr y \<longleftrightarrow>
     0 < B \<and> y = [B, 100]"
proof -
  have r1: "reshape_infer [] [60] [1, B, 60] = Inr z \<longleftrightarrow> z = [B, 60]" for z
    using reshape_infer_exact [of "[1, B, 60]" "[]" "[60]" B z] by auto
  have r2: "reshape_infer [] [150] [1, B, 150] = Inr z \<longleftrightarrow> z = [B, 150]" for z
    using reshape_infer_exact [of "[1, B, 150]" "[]" "[150]" B z] by auto
  have r3: "reshape_infer [] [60] [1, 6 * B, 10] = Inr z \<longleftrightarrow> z = [B, 60]" for z
    using reshape_infer_exact [of "[1, 6 * B, 10]" "[]" "[60]" B z] by auto
  have r4: "reshape_infer [B] [10, 15] [B, 150] = Inr z \<longleftrightarrow> 0 < B \<and> z = [B, 1, 10, 15]" for z
    using reshape_infer_exact [of "[B, 150]" "[B]" "[10, 15]" 1 z] by auto
  have r5: "reshape_infer [B] [150] [B, 1, 10, 15] = Inr z \<longleftrightarrow> 0 < B \<and> z = [B, 1, 150]" for z
    using reshape_infer_exact [of "[B, 1, 10, 15]" "[B]" "[150]" 1 z] by auto
  show ?thesis
    unfolding AttentionClassifier_shape_def
    by (auto simp: Let_def bind_exn_Inr Linear_shape_2 r1 r2 r3 r4 r5 simp del: One_nat_def)
qed

subsection \<open>The whole forward pass\<close>

lemma EndoForm_forward_shape_length:
  "EndoForm_forward_shape M training x = Inr r \<Longrightarrow> length x = 4"
  by (auto simp: EndoForm_forward_shape_def bind_exn_Inr split: prod.splits
        dest: pvt_v2_b2_shape_length)

lemma batch_norm_ok: "2 \<le> h \<Longrightarrow> B * h * w \<noteq> (1::nat)"
  by auto

lemma sizes_from_41:
  assumes "41 \<le> h"
  shows "11 \<le> conv_size 7 4 3 h"
    and "1 \<le> conv_size 3 2 1 (conv_size 7 4 3 h)"
    and "2 \<le> conv_size 3 2 1 (conv_size 7 4 3 h)"
    and "2 \<le> conv_size 3 2 1 (conv_size 3 2 1 (conv_size 7 4 3 h))"
    and "2 \<le> conv_size 3 2 1 (conv_size 3 2 1 (conv_size 3 2 1 (conv_size 7 4 3 h)))"
  using assms unfolding conv_size_def by arith+

lemma size_11_iff: "29 \<le> h \<Longrightarrow> 11 \<le> conv_size 7 4 3 h \<longleftrightarrow> 41 \<le> h"
  unfolding conv_size_def by arith

lemma EndoForm_forward_shape_iff:
  "EndoForm_forward_shape EndoForm_default training [B, C, H, W] = Inr r \<longleftrightarrow>
     C = 3 \<and> 0 < B \<and> 41 \<le> H \<and> 41 \<le> W \<and> r = ([B, 6], [B, 10], [B, 15], [B, 100])"
proof -
  let ?h1 = "conv_size 7 4 3 H" and ?w1 = "conv_size 7 4 3 W"
  let ?h2 = "conv_size 3 2 1 ?h1" and ?w2 = "conv_size 3 2 1 ?w1"
  let ?h3 = "conv_size 3 2 1 ?h2" and ?w3 = "conv_size 3 2 1 ?w2"
  let ?h4 = "conv_size 3 2 1 ?h3" and ?w4 = "conv_size 3 2 1 ?w3"
  have ab: "AttentionBlock_shape training 512 32 3 4 [B, 512, h, w] = Inr y \<longleftrightarrow>
       1 \<le> h \<and> 1 \<le> w \<and> \<not> (training \<and> B * h * w = 1) \<and> y = [B, 32, h, w]"
      "AttentionBlock_shape training 320 32 3 4 [B, 320, h, w] = Inr y \<longleftrightarrow>
       1 \<le> h \<and> 1 \<le> w \<and> \<not> (training \<and> B * h * w = 1) \<and> y = [B, 32, h, w]"
      "AttentionBlock_shape training 128 32 3 4 [B, 128, h, w] = Inr y \<longleftrightarrow>
       1 \<le> h \<and> 1 \<le> w \<and> \<not> (training \<and> B * h * w = 1) \<and> y = [B, 32, h, w]" for h w y
    by (simp_all add: AttentionBlock_shape_iff)
  have k: "32 * 2 = (64::nat)" "32 + 32 = (64::nat)" "6 * 10 = (60::nat)" "15 * 10 = (150::nat)"
    "10 * 6 = (60::nat)"
    by simp_all
  have pos: "0 < conv_size a b c d" for a b c d
    by (rule conv_size_pos)
  have one: "1 \<le> conv_size a b c d" for a b c d
    using conv_size_pos [of a b c d] by simp
  show ?thesis
  proof
    assume "EndoForm_forward_shape EndoForm_default training [B, C, H, W] = Inr r"
    then show "C = 3 \<and> 0 < B \<and> 41 \<le> H \<and> 41 \<le> W \<and> r = ([B, 6], [B, 10], [B, 15], [B, 100])"
      unfolding EndoForm_forward_shape_def EndoForm_default_def
      by (simp add: bind_exn_Inr pvt_v2_b2_shape_iff ab k Upsample_shape_4 cat1_shape_4
            BasicConv2d_shape_iff Conv2d_shape_same VerbClassifier_shape_iff
            SiameseNetworkWithCrossAttention_shape_iff AttentionClassifier_shape_iff
            size_11_iff del: One_nat_def cong: conj_cong)
  next
    assume a: "C = 3 \<and> 0 < B \<and> 41 \<le> H \<and> 41 \<le> W \<and> r = ([B, 6], [B, 10], [B, 15], [B, 100])"
    then have h: "29 \<le> H" "29 \<le> W" by auto
    note s = sizes_from_41 [of H] sizes_from_41 [of W]
    have bn: "B * ?h1 * ?w1 \<noteq> 1" "B * ?h2 * ?w2 \<noteq> 1" "B * ?h3 * ?w3 \<noteq> 1"
      "B * ?h4 * ?w4 \<noteq> 1"
      using a s by (auto intro!: batch_norm_ok simp del: One_nat_def)
    show "EndoForm_forward_shape EndoForm_default training [B, C, H, W] = Inr r"
      unfolding EndoForm_forward_shape_def EndoForm_default_def
      using a h s bn pos one
      by (simp add: bind_exn_Inr pvt_v2_b2_shape_iff ab k Upsample_shape_4 cat1_shape_4
            BasicConv2d_shape_iff Conv2d_shape_same VerbClassifier_shape_iff
            SiameseNetworkWithCrossAttention_shape_iff AttentionClassifier_shape_iff
            del: One_nat_def)
  qed
qed

text \<open>
  Claim C2. The forward pass of \<open>EndoForm\<close> with its default parameters, in training
  or evaluation mode, returns on an input of shape \<open>(B, C, H, W)\<close> exactly when
  \<open>C = 3\<close>, \<open>B \<ge> 1\<close> and \<open>H, W \<ge> 41\<close>; it then returns four tensors in the order
  instrument, verb, target, triplet, of shapes \<open>(B, 6)\<close>, \<open>(B, 10)\<close>, \<open>(B, 15)\<close> and
  \<open>(B, 100)\<close>.
\<close>

theorem EndoForm_forward_four_outputs:
  "EndoForm_forward_shape EndoForm_default training [B, C, H, W] = Inr r \<longleftrightarrow>
     C = 3 \<and> 0 < B \<and> 41 \<le> H \<and> 41 \<le> W \<and> r = ([B, 6], [B, 10], [B, 15], [B, 100])"
  by (rule EndoForm_forward_shape_iff)

theorem EndoForm_forward_four_outputs_witness:
  "EndoForm_forward_shape EndoForm_default True [1, 3, 256, 448] =
     Inr ([1, 6], [1, 10], [1, 15], [1, 100])"
  using EndoForm_forward_four_outputs
    [where training = True and B = 1 and C = 3 and H = 256 and W = 448
       and r = "([1, 6], [1, 10], [1, 15], [1, 100])"]
  by simp

theorem EndoForm_forward_small_image_counterexample:
  "pvt_v2_b2_shape (in_channels EndoForm_default) (dims EndoForm_default) [2, 3, 32, 32] =
     Inr ([2, 64, 8, 8], [2, 128, 4, 4], [2, 320, 2, 2], [2, 512, 1, 1]) \<and>
   EndoForm_forward_shape EndoForm_default False [2, 3, 32, 32] =
     Inl (RuntimeError ''Output size is too small'')"
proof -
  have s: "SiameseNetworkWithCrossAttention_shape 32 6 15 [2, 32, 8, 8] [2, 32, 8, 8] =
      Inl (RuntimeError ''Output size is too small'')"
    by (simp add: SiameseNetworkWithCrossAttention_shape_def shared_conv_shape_def bind_exn_def
          Conv2d_shape.simps MaxPool2d_shape.simps conv_out_def pool_out_def conv_size_def
          pool_size_def)
  have b: "bind_exn (Inr v) f = f v" "bind_exn (Inl e) f = Inl e"
    for v :: "'a" and f :: "'a \<Rightarrow> exn + 'b" and e
    by (simp_all add: bind_exn_def)
  have p: "pvt_v2_b2_shape 3 (64, 128, 320, 512) [2, 3, 32, 32] =
      Inr ([2, 64, 8, 8], [2, 128, 4, 4], [2, 320, 2, 2], [2, 512, 1, 1])"
    by (simp add: pvt_v2_b2_shape_iff conv_size_def)
  have a: "AttentionBlock_shape False 512 32 3 4 [2, 512, 1, 1] = Inr [2, 32, 1, 1]"
    "AttentionBlock_shape False 320 32 3 4 [2, 320, 2, 2] = Inr [2, 32, 2, 2]"
    "AttentionBlock_shape False 128 32 3 4 [2, 128, 4, 4] = Inr [2, 32, 4, 4]"
    by (simp_all add: AttentionBlock_shape_iff)
  have u: "Upsample_shape [2, 32, 1, 1] [2, 2] = Inr [2, 32, 2, 2]"
    "Upsample_shape [2, 32, 2, 2] [4, 4] = Inr [2, 32, 4, 4]"
    "Upsample_shape [2, 32, 4, 4] [8, 8] = Inr [2, 32, 8, 8]"
    "cat1_shape [2, 32, 4, 4] [2, 32, 4, 4] = Inr [2, 64, 4, 4]"
    by (simp_all add: Upsample_shape_4 cat1_shape_4)
  have c: "BasicConv2d_shape False 64 32 1 1 0 [2, 64, 4, 4] = Inr [2, 32, 4, 4]"
    "BasicConv2d_shape False 64 32 3 1 1 [2, 64, 8, 8] = Inr [2, 32, 8, 8]"
    "BasicConv2d_shape False 32 32 1 1 0 [2, 32, 4, 4] = Inr [2, 32, 4, 4]"
    "Conv2d_shape 32 10 1 1 0 [2, 32, 4, 4] = Inr [2, 10, 4, 4]"
    "VerbClassifier_shape 10 10 [2, 10, 4, 4] = Inr [2, 10]"
    by (simp_all add: BasicConv2d_shape_iff Conv2d_shape_same VerbClassifier_shape_iff
          del: One_nat_def)
  show ?thesis
    by (simp add: EndoForm_forward_shape_def EndoForm_default_def p a u c s b del: One_nat_def)
qed

text \<open>
  Claim C4. \<open>AttentionClassifier.forward\<close> on a batch of two examples, instrument logits
  of width 6 and verb logits of width 10: the input of the query projection holds in
  row \<open>b\<close> the instrument vector of example \<open>b\<close> ten times, but both rows of the input
  of the value projection hold the verb vectors of example 0 and example 1 in turn,
  three times each: \<open>verb.repeat(1, i_num, 1)\<close> tiles along the batch dimension.
\<close>

theorem value_input_mixes_examples:
  "query_input example_instrument 10 =
     Inr \<lparr>ncols = 60,
          rows = [concat (replicate 10 [1, 2, 3, 4, 5, 6]),
                  concat (replicate 10 [7, 8, 9, 10, 11, 12])]\<rparr> \<and>
   value_input example_verb 6 =
     Inr \<lparr>ncols = 60,
          rows = [concat (replicate 3 ([10, 11, 12, 13, 14, 15, 16, 17, 18, 19] @
                                       [20, 21, 22, 23, 24, 25, 26, 27, 28, 29])),
                  concat (replicate 3 ([10, 11, 12, 13, 14, 15, 16, 17, 18, 19] @
                                       [20, 21, 22, 23, 24, 25, 26, 27, 28, 29]))]\<rparr>"
  by code_simp

end
